theory Spec2Isabelle
  imports Complex_Main "HOL-Library.Sublist" "HOL-Library.Log_Nat"
begin

section \<open>JavaScript values used by the settlement code\<close>

text \<open>
  Strings are lists of 8-bit characters, which covers the ASCII text that wallet addresses,
  amounts, currency codes, ISO timestamps and the cashout message template consist of;
  characters beyond ASCII are outside the model. \<open>toLowerCase\<close> maps the letters
  \<open>A\<close> to \<open>Z\<close> to \<open>a\<close> to \<open>z\<close> and leaves every other character unchanged.
\<close>

definition lower_char :: "char \<Rightarrow> char" where
  "lower_char c =
     (let n = (of_char c :: nat) in if 65 \<le> n \<and> n \<le> 90 then char_of (n + 32) else c)"

definition toLowerCase :: "string \<Rightarrow> string" where
  "toLowerCase s = map lower_char s"

text \<open>\<open>s.includes(sub)\<close>: \<open>sub\<close> occurs in \<open>s\<close> as a contiguous run.\<close>

definition includes_str :: "string \<Rightarrow> string \<Rightarrow> bool" where
  "includes_str s sub = sublist sub s"

text \<open>
  Truthiness of an optional string field: \<open>undefined\<close>, \<open>null\<close> and the empty
  string are falsy, every other string is truthy.
\<close>

fun truthy :: "string option \<Rightarrow> bool" where
  "truthy None = False"
| "truthy (Some s) = (s \<noteq> [])"

text \<open>Character classes used to describe well-formed inputs.\<close>

definition digit_char :: "char \<Rightarrow> bool" where
  "digit_char c = (48 \<le> (of_char c :: nat) \<and> (of_char c :: nat) \<le> 57)"

definition alnum_char :: "char \<Rightarrow> bool" where
  "alnum_char c =
     (let n = (of_char c :: nat) in
      (48 \<le> n \<and> n \<le> 57) \<or> (65 \<le> n \<and> n \<le> 90) \<or> (97 \<le> n \<and> n \<le> 122))"


text \<open>
  A thrown value: its \<open>message\<close> and the optional \<open>code\<close> and \<open>type\<close> properties that
  library errors carry. \<open>new Error(m)\<close> has neither.
\<close>

record js_error =
  message :: string
  code :: "string option"
  etype :: "string option"

definition new_Error :: "string \<Rightarrow> js_error" where
  "new_Error m = \<lparr>message = m, code = None, etype = None\<rparr>"

text \<open>\<open>String(error)\<close>, as a template literal renders a caught \<open>Error\<close>.\<close>

definition error_to_string :: "js_error \<Rightarrow> string" where
  "error_to_string e = ''Error: '' @ message e"

text \<open>\<open>a || b\<close> on optional strings.\<close>

definition or_else :: "string option \<Rightarrow> string option \<Rightarrow> string option" where
  "or_else a b = (if truthy a then a else b)"

section \<open>utils/signature.ts\<close>

text \<open>
  The three patterns of \<open>validateCashoutMessage\<close> are built by interpolating the amount
  and the lower-cased address into regular-expression source text. The fragment of the
  regular-expression language that the fixed template text uses is: literal characters,
  the wildcard \<open>.\<close> (any character but a line terminator, of which ASCII has the line
  feed and the carriage return) and \<open>.+\<close>. Interpolated text is
  regular-expression source as well, so a \<open>.\<close> inside the amount is a wildcard; text that
  holds any other metacharacter is outside the fragment (\<open>None\<close>).
\<close>

datatype rx_item = RLit char | RDot | RDotPlus

definition is_line_terminator :: "char \<Rightarrow> bool" where
  "is_line_terminator c = ((of_char c :: nat) = 10 \<or> (of_char c :: nat) = 13)"

definition rx_metachar :: "char \<Rightarrow> bool" where
  \<comment> \<open>the codes of \<open>\\ ^ $ * + ? ( ) [ ] { } |\<close>\<close>
  "rx_metachar c =
     ((of_char c :: nat) \<in> set [0x5C, 0x5E, 0x24, 0x2A, 0x2B, 0x3F, 0x28, 0x29, 0x5B, 0x5D, 0x7B, 0x7D, 0x7C])"

definition rx_interp :: "string \<Rightarrow> rx_item list option" where
  "rx_interp s =
     (if list_ex rx_metachar s then None
      else Some (map (\<lambda>c. if c = CHR ''.'' then RDot else RLit c) s))"

definition rx_text :: "string \<Rightarrow> rx_item list" where
  "rx_text s = map RLit s"

text \<open>Flag \<open>i\<close>: a literal matches a character when both have the same lower case.\<close>

definition ci_eq :: "char \<Rightarrow> char \<Rightarrow> bool" where
  "ci_eq a b = (lower_char a = lower_char b)"

text \<open>\<open>rx_match p s\<close>: the pattern matches a prefix of \<open>s\<close>.\<close>

fun rx_match :: "rx_item list \<Rightarrow> string \<Rightarrow> bool" where
  "rx_match [] s = True"
| "rx_match (RLit c # p) [] = False"
| "rx_match (RLit c # p) (x # xs) = (ci_eq c x \<and> rx_match p xs)"
| "rx_match (RDot # p) [] = False"
| "rx_match (RDot # p) (x # xs) = (\<not> is_line_terminator x \<and> rx_match p xs)"
| "rx_match (RDotPlus # p) [] = False"
| "rx_match (RDotPlus # p) (x # xs) =
     (\<not> is_line_terminator x \<and> (rx_match (RDotPlus # p) xs \<or> rx_match p xs))"

text \<open>\<open>pattern.test(s)\<close> without anchors: the pattern matches at some position of \<open>s\<close>.\<close>

fun rx_test :: "rx_item list \<Rightarrow> string \<Rightarrow> bool" where
  "rx_test p [] = rx_match p []"
| "rx_test p (x # xs) = (rx_match p (x # xs) \<or> rx_test p xs)"

definition createCashoutMessage :: "string \<Rightarrow> string \<Rightarrow> string \<Rightarrow> string" where
  "createCashoutMessage address amount timestamp =
     ''I request cashout '' @ amount @ '' USDT at '' @ timestamp
       @ [CHR 0x0A, CHR 0x0A] @ ''Address: '' @ address"

definition cashout_pattern :: "rx_item list \<Rightarrow> rx_item list \<Rightarrow> rx_item list \<Rightarrow> rx_item list" where
  "cashout_pattern amt sep addr =
     rx_text ''I request cashout '' @ amt @ rx_text '' USDT at '' @ [RDotPlus] @ sep
       @ rx_text ''Address: '' @ addr"

definition validateCashoutMessage :: "string \<Rightarrow> string \<Rightarrow> string \<Rightarrow> bool option" where
  "validateCashoutMessage msg address amount =
     (let normalizedAddress = toLowerCase address in
      case (rx_interp amount, rx_interp normalizedAddress) of
        (Some amt, Some addr) \<Rightarrow>
          (let patterns =
                 [cashout_pattern amt [RLit (CHR 0x0A), RLit (CHR 0x0A)] addr,
                  cashout_pattern amt [RLit (CHR 0x0A)] addr,
                  cashout_pattern amt [RLit (CHR '' '')] addr]
           in Some (list_ex (\<lambda>pattern. rx_test pattern (toLowerCase msg)) patterns))
      | _ \<Rightarrow> None)"

text \<open>
  \<open>verifySignature\<close>: \<open>recover\<close> stands for \<open>ethers.verifyMessage\<close>, which returns the
  signer's address or throws; a throw is caught and yields \<open>false\<close>.
\<close>

definition verifySignature ::
  "(string \<Rightarrow> string \<Rightarrow> js_error + string) \<Rightarrow> string \<Rightarrow> string \<Rightarrow> string \<Rightarrow> bool" where
  "verifySignature recover msg signature expectedAddress =
     (case recover msg signature of
        Inl e \<Rightarrow> False
      | Inr recoveredAddress \<Rightarrow> toLowerCase recoveredAddress = toLowerCase expectedAddress)"


section \<open>JavaScript numbers\<close>

text \<open>
  A JavaScript number is an IEEE-754 double: \<open>Fin a\<close> is the finite double whose exact
  value is the rational \<open>a\<close>; there are the two infinities and \<open>NaN\<close>. Arithmetic computes
  the exact result and rounds it to the nearest double (\<open>to_double\<close>). The sign of zero is
  not modelled: both zeros are \<open>Fin 0\<close>.
\<close>

datatype jsnum = Fin rat | PosInf | NegInf | NaN

subsection \<open>Rounding to the nearest double\<close>

text \<open>\<open>ilog2 a\<close> is the binary exponent of a positive rational: \<open>2^k \<le> a < 2^(k+1)\<close>.\<close>

definition ilog2 :: "rat \<Rightarrow> int" where
  "ilog2 a =
     (let k = bitlen (fst (quotient_of a)) - bitlen (snd (quotient_of a))
      in if 2 powi k \<le> a then k else k - 1)"

definition round_half_even :: "rat \<Rightarrow> int" where
  "round_half_even q =
     (let f = \<lfloor>q\<rfloor>; r = q - of_int f
      in if r < 1 / 2 then f else if 1 / 2 < r then f + 1 else if even f then f else f + 1)"

text \<open>
  A double has a significand of 53 bits and a least exponent of \<open>-1074\<close> (below \<open>2^-1022\<close>
  the spacing stays \<open>2^-1074\<close>). The magnitude is rounded to the nearest multiple of the
  spacing at its exponent, to the even significand on a tie; a result of \<open>2^1024\<close> or more,
  that is of binary exponent 1024 or more, is infinite.
\<close>

definition to_double :: "rat \<Rightarrow> jsnum" where
  "to_double q =
     (if q = 0 then Fin 0
      else
        (let a = \<bar>q\<bar>;
             e = max (ilog2 a - 52) (- 1074);
             v = of_int (round_half_even (a / 2 powi e)) * 2 powi e
         in if 1024 \<le> ilog2 v then (if q < 0 then NegInf else PosInf)
            else Fin (if q < 0 then - v else v)))"

subsection \<open>Arithmetic and comparison\<close>

fun js_sign :: "jsnum \<Rightarrow> int" where
  "js_sign (Fin a) = (if a < 0 then -1 else if a = 0 then 0 else 1)"
| "js_sign PosInf = 1"
| "js_sign NegInf = -1"
| "js_sign NaN = 0"

fun js_mul :: "jsnum \<Rightarrow> jsnum \<Rightarrow> jsnum" where
  "js_mul (Fin a) (Fin b) = to_double (a * b)"
| "js_mul NaN y = NaN"
| "js_mul x NaN = NaN"
| "js_mul x y =
     (let s = js_sign x * js_sign y in if s = 0 then NaN else if 0 < s then PosInf else NegInf)"

text \<open>\<open>1 / x\<close>; division by zero is \<open>Infinity\<close>, not an exception.\<close>

fun js_recip :: "jsnum \<Rightarrow> jsnum" where
  "js_recip (Fin a) = (if a = 0 then PosInf else to_double (1 / a))"
| "js_recip PosInf = Fin 0"
| "js_recip NegInf = Fin 0"
| "js_recip NaN = NaN"

fun js_neg :: "jsnum \<Rightarrow> jsnum" where
  "js_neg (Fin a) = Fin (- a)"
| "js_neg PosInf = NegInf"
| "js_neg NegInf = PosInf"
| "js_neg NaN = NaN"

fun js_add :: "jsnum \<Rightarrow> jsnum \<Rightarrow> jsnum" where
  "js_add (Fin a) (Fin b) = to_double (a + b)"
| "js_add NaN y = NaN"
| "js_add x NaN = NaN"
| "js_add PosInf NegInf = NaN"
| "js_add NegInf PosInf = NaN"
| "js_add PosInf y = PosInf"
| "js_add NegInf y = NegInf"
| "js_add x PosInf = PosInf"
| "js_add x NegInf = NegInf"

definition js_sub :: "jsnum \<Rightarrow> jsnum \<Rightarrow> jsnum" where
  "js_sub x y = js_add x (js_neg y)"

fun js_abs :: "jsnum \<Rightarrow> jsnum" where
  "js_abs (Fin a) = Fin \<bar>a\<bar>"
| "js_abs PosInf = PosInf"
| "js_abs NegInf = PosInf"
| "js_abs NaN = NaN"

text \<open>Comparisons: every comparison with \<open>NaN\<close> is false.\<close>

fun js_lt :: "jsnum \<Rightarrow> jsnum \<Rightarrow> bool" where
  "js_lt (Fin a) (Fin b) = (a < b)"
| "js_lt NaN y = False"
| "js_lt x NaN = False"
| "js_lt PosInf y = False"
| "js_lt x PosInf = True"
| "js_lt x NegInf = False"
| "js_lt NegInf y = True"

definition js_gt :: "jsnum \<Rightarrow> jsnum \<Rightarrow> bool" where
  "js_gt x y = js_lt y x"

definition js_le :: "jsnum \<Rightarrow> jsnum \<Rightarrow> bool" where
  "js_le x y = (x \<noteq> NaN \<and> y \<noteq> NaN \<and> \<not> js_lt y x)"

subsection \<open>Decimal text\<close>

text \<open>Integers (\<open>bigint\<close> values and digit counts) are written in decimal by \<open>show_nat\<close>.\<close>

definition digit_of :: "int \<Rightarrow> char" where
  "digit_of n = ''0123456789'' ! nat n"

function show_nat :: "int \<Rightarrow> string" where
  "show_nat n = (if n < 10 then [digit_of n] else show_nat (n div 10) @ [digit_of (n mod 10)])"
  by pat_completeness auto
termination
  by (relation "measure nat") auto

definition digits_value :: "string \<Rightarrow> int" where
  "digits_value ds = foldl (\<lambda>acc c. 10 * acc + ((of_char c :: int) - 48)) 0 ds"

definition is_white_space :: "char \<Rightarrow> bool" where
  "is_white_space c = ((of_char c :: nat) \<in> set [9, 10, 11, 12, 13, 32])"

text \<open>
  \<open>parseFloat\<close>: skip leading white space, read an optional sign, then the longest
  decimal literal (digits, an optional fraction, an optional exponent) or \<open>Infinity\<close>;
  whatever follows is ignored; no literal at all gives \<open>NaN\<close>. The result is the double
  nearest to the decimal value of the literal.
\<close>

definition parse_exponent :: "string \<Rightarrow> int" where
  "parse_exponent r =
     (case r of
        [] \<Rightarrow> 0
      | e # r1 \<Rightarrow>
          if e = CHR ''e'' \<or> e = CHR ''E'' then
            (let (neg, r2) =
                   (case r1 of
                      [] \<Rightarrow> (False, r1)
                    | s # r3 \<Rightarrow> if s = CHR ''-'' then (True, r3)
                               else if s = CHR ''+'' then (False, r3) else (False, r1));
                 ds = takeWhile digit_char r2
             in if ds = [] then 0
                else if neg then - digits_value ds else digits_value ds)
          else 0)"

definition parseFloat :: "string \<Rightarrow> jsnum" where
  "parseFloat s =
     (let s1 = dropWhile is_white_space s;
          (neg, s2) =
            (case s1 of
               [] \<Rightarrow> (False, s1)
             | c # r \<Rightarrow> if c = CHR ''-'' then (True, r)
                        else if c = CHR ''+'' then (False, r) else (False, s1))
      in if prefix ''Infinity'' s2 then (if neg then NegInf else PosInf)
         else
           (let ip = takeWhile digit_char s2;
                r1 = dropWhile digit_char s2;
                (fp, r2) =
                  (case r1 of
                     [] \<Rightarrow> ([], r1)
                   | d # r \<Rightarrow> if d = CHR ''.'' then (takeWhile digit_char r, dropWhile digit_char r)
                              else ([], r1))
            in if ip = [] \<and> fp = [] then NaN
               else
                 (let m = (of_int (digits_value (ip @ fp)) :: rat) / 10 ^ length fp;
                      v = m * (10 powi parse_exponent r2)
                  in to_double (if neg then - v else v))))"

text \<open>
  \<open>x.toFixed(6)\<close>: for a finite \<open>x\<close> of magnitude below \<open>10^21\<close>, the magnitude rounded to the
  nearest multiple of \<open>10^-6\<close> (the larger one on a tie), written with six fractional
  digits after the sign; from \<open>10^21\<close> on, the sign and the text of the magnitude as
  \<open>toString\<close> gives it.
\<close>

definition pad_left :: "nat \<Rightarrow> string \<Rightarrow> string" where
  "pad_left n s = replicate (n - length s) (CHR ''0'') @ s"

definition toFixed6 :: "(jsnum \<Rightarrow> string) \<Rightarrow> jsnum \<Rightarrow> string" where
  "toFixed6 toString x =
     (case x of
        Fin a \<Rightarrow>
          (if 10 ^ 21 \<le> \<bar>a\<bar> then (if a < 0 then ''-'' else '''') @ toString (Fin \<bar>a\<bar>)
           else
             (let m = \<lfloor>\<bar>a\<bar> * 10 ^ 6 + 1 / 2\<rfloor>
              in (if a < 0 then ''-'' else '''')
                   @ show_nat (m div 10 ^ 6) @ ''.'' @ pad_left 6 (show_nat (m mod 10 ^ 6))))
      | PosInf \<Rightarrow> ''Infinity''
      | NegInf \<Rightarrow> ''-Infinity''
      | NaN \<Rightarrow> ''NaN'')"

text \<open>
  \<open>ethers.formatUnits(value, decimals)\<close>: the integer \<open>value\<close> written with the decimal
  point \<open>decimals\<close> places from the right, trailing zeros of the fraction removed but one
  fractional digit kept.
\<close>

definition strip_trailing_zeros :: "string \<Rightarrow> string" where
  "strip_trailing_zeros s = rev (dropWhile (\<lambda>c. c = CHR ''0'') (rev s))"

definition formatUnits :: "int \<Rightarrow> nat \<Rightarrow> string" where
  "formatUnits v decimals =
     (let a = \<bar>v\<bar>;
          sign = (if v < 0 then ''-'' else '''')
      in if decimals = 0 then sign @ show_nat a
         else
           (let frac = strip_trailing_zeros (pad_left decimals (show_nat (a mod 10 ^ decimals)))
            in sign @ show_nat (a div 10 ^ decimals) @ ''.''
                 @ (if frac = [] then ''0'' else frac)))"

section \<open>utils/blockchain.ts: the custody transfer with retry\<close>

text \<open>
  What the chain node answers during one attempt: the token's \<open>decimals()\<close>, the custody
  wallet's \<open>balanceOf\<close>, and the \<open>transfer\<close> call, which returns the hash of the broadcast
  transaction. Each of the three calls may throw.
\<close>

record rpc_attempt =
  decimals_res :: "js_error + nat"
  balance_res :: "js_error + int"
  transfer_res :: "js_error + string"

text \<open>
  The observable trace of \<open>transferUSDTFromOfframp\<close>: the attempts it starts, the pauses
  (in milliseconds) between them, and the transfers the chain accepted
  (recipient, amount in base units, transaction hash).
\<close>

datatype xfer_event = Attempt nat | Sleep nat | Broadcast string int string

definition isRetryableError :: "js_error \<Rightarrow> bool" where
  "isRetryableError error =
     (includes_str (message error) ''502'' \<or>
      includes_str (message error) ''503'' \<or>
      includes_str (message error) ''Bad Gateway'' \<or>
      includes_str (message error) ''Service Unavailable'' \<or>
      includes_str (message error) ''timeout'' \<or>
      includes_str (message error) ''ECONNRESET'' \<or>
      includes_str (message error) ''ETIMEDOUT'' \<or>
      code error = Some ''SERVER_ERROR'' \<or>
      code error = Some ''TIMEOUT'')"

text \<open>
  The body of the \<open>try\<close> block. \<open>parseUnits\<close> is the library function
  \<open>ethers.parseUnits\<close>, which returns the amount in base units or throws. A \<open>transfer\<close>
  call that throws is taken not to have moved tokens; one that returns has been accepted
  by the chain.
\<close>

definition attempt_transfer ::
  "(string \<Rightarrow> nat \<Rightarrow> js_error + int) \<Rightarrow> rpc_attempt \<Rightarrow> string \<Rightarrow> string
     \<Rightarrow> (js_error + string) \<times> xfer_event list" where
  "attempt_transfer parseUnits rpc to amount =
     (case decimals_res rpc of
        Inl e \<Rightarrow> (Inl e, [])
      | Inr decimals \<Rightarrow>
          (case parseUnits amount decimals of
             Inl e \<Rightarrow> (Inl e, [])
           | Inr amountWei \<Rightarrow>
               (case balance_res rpc of
                  Inl e \<Rightarrow> (Inl e, [])
                | Inr balance \<Rightarrow>
                    if balance < amountWei then
                      (Inl (new_Error
                          (''Insufficient balance in offramp wallet. Required: ''
                            @ formatUnits amountWei decimals @ '' USDT, Available: ''
                            @ formatUnits balance decimals @ '' USDT'')), [])
                    else
                      (case transfer_res rpc of
                         Inl e \<Rightarrow> (Inl e, [])
                       | Inr tx \<Rightarrow> (Inr tx, [Broadcast to amountWei tx])))))"

text \<open>The \<open>for\<close> loop, from attempt number \<open>attempt\<close> on.\<close>

function transfer_loop ::
  "(string \<Rightarrow> nat \<Rightarrow> js_error + int) \<Rightarrow> (nat \<Rightarrow> rpc_attempt) \<Rightarrow> string \<Rightarrow> string
     \<Rightarrow> nat \<Rightarrow> nat \<Rightarrow> js_error option \<Rightarrow> (js_error + string) \<times> xfer_event list" where
  "transfer_loop parseUnits chain to amount maxRetries attempt lastError =
     (if attempt \<le> maxRetries then
        (case attempt_transfer parseUnits (chain attempt) to amount of
           (Inr tx, evs) \<Rightarrow> (Inr tx, Attempt attempt # evs)
         | (Inl error, evs) \<Rightarrow>
             if isRetryableError error \<and> attempt < maxRetries then
               (let waitTime = attempt * 2;
                    (r, rest) = transfer_loop parseUnits chain to amount maxRetries
                                  (attempt + 1) (Some error)
                in (r, Attempt attempt # evs @ Sleep (waitTime * 1000) # rest))
             else
               (Inl (new_Error (''Failed to transfer USDT from offramp wallet: '' @ message error)),
                Attempt attempt # evs))
      else
        (Inl (new_Error
           (''Failed to transfer USDT from offramp wallet after '' @ show_nat (int maxRetries)
             @ '' attempts: ''
             @ (case lastError of
                  None \<Rightarrow> ''Unknown error''
                | Some e \<Rightarrow> if message e = [] then ''Unknown error'' else message e))), []))"
  by pat_completeness auto
termination
  by (relation "measure (\<lambda>(parseUnits, chain, to, amount, maxRetries, attempt, lastError).
        Suc maxRetries - attempt)") auto

definition default_maxRetries :: nat where
  "default_maxRetries = 3"

definition transferUSDTFromOfframp ::
  "(string \<Rightarrow> nat \<Rightarrow> js_error + int) \<Rightarrow> string option \<Rightarrow> (nat \<Rightarrow> rpc_attempt) \<Rightarrow> string
     \<Rightarrow> string \<Rightarrow> nat \<Rightarrow> (js_error + string) \<times> xfer_event list" where
  "transferUSDTFromOfframp parseUnits offrampWallet chain to amount maxRetries =
     (case offrampWallet of
        None \<Rightarrow> (Inl (new_Error ''Offramp wallet not configured''), [])
      | Some w \<Rightarrow> transfer_loop parseUnits chain to amount maxRetries 1 None)"

text \<open>
  \<open>waitForTransaction\<close>: the node's answer is a receipt, \<open>null\<close>, or a throw, which is
  wrapped in a new error.
\<close>

record tx_receipt =
  rc_hash :: string
  rc_blockNumber :: nat
  rc_status :: nat

definition waitForTransaction :: "(js_error + tx_receipt option) \<Rightarrow> js_error + tx_receipt option" where
  "waitForTransaction node_answer =
     (case node_answer of
        Inl e \<Rightarrow> Inl (new_Error (''Failed to wait for transaction: '' @ error_to_string e))
      | Inr r \<Rightarrow> Inr r)"

text \<open>The attempts and the accepted transfers of a trace.\<close>

fun is_attempt :: "xfer_event \<Rightarrow> bool" where
  "is_attempt (Attempt k) = True"
| "is_attempt e = False"

fun is_broadcast :: "xfer_event \<Rightarrow> bool" where
  "is_broadcast (Broadcast to amountWei tx) = True"
| "is_broadcast e = False"

section \<open>The ledger: models and database services\<close>

text \<open>
  The relational store is modelled as in-memory tables that never fail. Rows carry the
  fields of \<open>models/Payment.ts\<close>, \<open>models/Cashout.ts\<close> and \<open>models/Payroll.ts\<close>; an
  optional column is an \<open>option\<close>. Time is a counter supplied by the caller.
\<close>

datatype payment_status = Pending | Processing | Completed | Failed | Canceled

record payment =
  p_id :: nat
  payment_intent_id :: string
  wallet_address :: string
  amount_fiat :: string
  fiat_currency :: string
  amount_usdt :: string
  exchange_rate :: string
  tx_hash :: "string option"
  block_number :: "nat option"
  p_status :: payment_status
  error_message :: "string option"
  created_at :: nat
  updated_at :: nat
  completed_at :: "nat option"

datatype cashout_status =
  PendingTransfer | PendingPayout | InTransit | Paid | CashoutFailed | CashoutCanceled

record cashout =
  c_id :: nat
  employee_address :: string
  c_amount_usdt :: string
  c_fiat_currency :: string
  fiat_amount :: "string option"
  c_exchange_rate :: "string option"
  tx_hash_onchain :: string
  payout_id_stripe :: "string option"
  stripe_bank_account_id :: "string option"
  c_status :: cashout_status
  c_error_message :: "string option"
  c_created_at :: nat
  c_updated_at :: nat
  c_completed_at :: "nat option"

datatype payroll_status = PayrollPending | PayrollCompleted | PayrollFailed

record payroll =
  pr_id :: nat
  payroll_id :: string
  employer_address :: string
  pr_employee_address :: string
  pr_amount_usdt :: string
  pr_tx_hash :: "string option"
  pr_block_number :: "nat option"
  pr_status :: payroll_status

text \<open>
  Everything the code does outside the ledger is recorded, in order: the custody
  transfer's trace, look-ups on the chain, calls to the payment processor and pauses.
\<close>

datatype effect =
    Chain xfer_event
  | ChainLookup string
  | PayrollLookup string string
  | BalanceLookup
  | RateLookup string string
  | StripePaymentIntent jsnum string string
  | StripeTransfer jsnum string string
  | StripePayout jsnum string string "string option"
  | Pause nat

record world =
  payments :: "payment list"
  cashouts :: "cashout list"
  payrolls :: "payroll list"
  next_id :: nat
  effects :: "effect list"

definition log_effects :: "effect list \<Rightarrow> world \<Rightarrow> world" where
  "log_effects es w = w\<lparr>effects := effects w @ es\<rparr>"

subsection \<open>services/paymentService.ts\<close>

text \<open>
  The \<open>updates\<close> argument of \<open>updatePayment\<close>, restricted to the columns its callers set;
  \<open>None\<close> is \<open>undefined\<close>.
\<close>

record payment_updates =
  u_tx_hash :: "string option"
  u_block_number :: "nat option"
  u_status :: "payment_status option"
  u_error_message :: "string option"
  u_completed_at :: "nat option"

definition no_payment_updates :: payment_updates where
  "no_payment_updates =
     \<lparr>u_tx_hash = None, u_block_number = None, u_status = None, u_error_message = None,
      u_completed_at = None\<rparr>"

definition apply_payment_updates :: "nat \<Rightarrow> payment_updates \<Rightarrow> payment \<Rightarrow> payment" where
  "apply_payment_updates now u p =
     (let p1 = (case u_tx_hash u of None \<Rightarrow> p | Some h \<Rightarrow> p\<lparr>tx_hash := Some h\<rparr>);
          p2 = (case u_block_number u of None \<Rightarrow> p1 | Some b \<Rightarrow> p1\<lparr>block_number := Some b\<rparr>);
          p3 = (case u_status u of None \<Rightarrow> p2 | Some s \<Rightarrow> p2\<lparr>p_status := s\<rparr>);
          p4 = (case u_error_message u of None \<Rightarrow> p3 | Some m \<Rightarrow> p3\<lparr>error_message := Some m\<rparr>);
          p5 = (case u_completed_at u of
                  Some t \<Rightarrow> p4\<lparr>completed_at := Some t\<rparr>
                | None \<Rightarrow>
                    if u_status u = Some Completed then p4\<lparr>completed_at := Some now\<rparr> else p4)
      in p5\<lparr>updated_at := now\<rparr>)"

definition updatePayment :: "nat \<Rightarrow> nat \<Rightarrow> payment_updates \<Rightarrow> payment list \<Rightarrow> payment list" where
  "updatePayment now paymentId u tbl =
     (if u = no_payment_updates then tbl
      else map (\<lambda>p. if p_id p = paymentId then apply_payment_updates now u p else p) tbl)"

definition getPaymentByPaymentIntentId :: "string \<Rightarrow> payment list \<Rightarrow> payment option" where
  "getPaymentByPaymentIntentId paymentIntentId tbl =
     find (\<lambda>p. payment_intent_id p = paymentIntentId) tbl"

text \<open>
  \<open>createPayment\<close>: the column \<open>payment_intent_id\<close> is unique, so a second row for the same
  payment intent is refused.
\<close>

definition createPayment :: "nat \<Rightarrow> payment \<Rightarrow> world \<Rightarrow> js_error + world" where
  "createPayment now paymentData w =
     (case getPaymentByPaymentIntentId (payment_intent_id paymentData) (payments w) of
        Some existing \<Rightarrow> Inl (new_Error ''Payment with this payment intent ID already exists'')
      | None \<Rightarrow>
        Inr (w\<lparr>payments := payments w @
                  [paymentData\<lparr>p_id := next_id w,
                     wallet_address := toLowerCase (wallet_address paymentData),
                     fiat_currency := toLowerCase (fiat_currency paymentData),
                     error_message := (if truthy (error_message paymentData)
                                       then error_message paymentData else None),
                     created_at := now, updated_at := now\<rparr>],
               next_id := Suc (next_id w)\<rparr>))"

subsection \<open>services/cashoutService.ts\<close>

record cashout_updates =
  cu_payout_id_stripe :: "string option"
  cu_status :: "cashout_status option"
  cu_error_message :: "string option"
  cu_completed_at :: "nat option"

definition no_cashout_updates :: cashout_updates where
  "no_cashout_updates =
     \<lparr>cu_payout_id_stripe = None, cu_status = None, cu_error_message = None,
      cu_completed_at = None\<rparr>"

definition apply_cashout_updates :: "nat \<Rightarrow> cashout_updates \<Rightarrow> cashout \<Rightarrow> cashout" where
  "apply_cashout_updates now u c =
     (let c1 = (case cu_payout_id_stripe u of
                  None \<Rightarrow> c | Some i \<Rightarrow> c\<lparr>payout_id_stripe := Some i\<rparr>);
          c2 = (case cu_status u of None \<Rightarrow> c1 | Some s \<Rightarrow> c1\<lparr>c_status := s\<rparr>);
          c3 = (case cu_error_message u of
                  None \<Rightarrow> c2 | Some m \<Rightarrow> c2\<lparr>c_error_message := Some m\<rparr>);
          c4 = (case cu_completed_at u of
                  Some t \<Rightarrow> c3\<lparr>c_completed_at := Some t\<rparr>
                | None \<Rightarrow>
                    if cu_status u = Some Paid then c3\<lparr>c_completed_at := Some now\<rparr> else c3)
      in c4\<lparr>c_updated_at := now\<rparr>)"

definition updateCashout :: "nat \<Rightarrow> nat \<Rightarrow> cashout_updates \<Rightarrow> cashout list \<Rightarrow> cashout list" where
  "updateCashout now cashoutId u tbl =
     (if u = no_cashout_updates then tbl
      else map (\<lambda>c. if c_id c = cashoutId then apply_cashout_updates now u c else c) tbl)"

definition getCashoutByTxHash :: "string \<Rightarrow> cashout list \<Rightarrow> cashout option" where
  "getCashoutByTxHash txHash tbl = find (\<lambda>c. tx_hash_onchain c = txHash) tbl"

definition getCashoutByPayoutId :: "string \<Rightarrow> cashout list \<Rightarrow> cashout option" where
  "getCashoutByPayoutId payoutId tbl = find (\<lambda>c. payout_id_stripe c = Some payoutId) tbl"

text \<open>\<open>createCashout\<close> returns the new row's id together with the updated store.\<close>

definition createCashout :: "nat \<Rightarrow> cashout \<Rightarrow> world \<Rightarrow> nat \<times> world" where
  "createCashout now cashoutData w =
     (next_id w,
      w\<lparr>cashouts := cashouts w @
           [cashoutData\<lparr>c_id := next_id w,
              employee_address := toLowerCase (employee_address cashoutData),
              fiat_amount := or_else (fiat_amount cashoutData) None,
              c_exchange_rate := or_else (c_exchange_rate cashoutData) None,
              payout_id_stripe := or_else (payout_id_stripe cashoutData) None,
              stripe_bank_account_id := or_else (stripe_bank_account_id cashoutData) None,
              c_error_message := or_else (c_error_message cashoutData) None,
              c_created_at := now, c_updated_at := now\<rparr>],
        next_id := Suc (next_id w)\<rparr>)"

subsection \<open>services/payrollService.ts\<close>

record payroll_updates =
  pu_tx_hash :: "string option"
  pu_block_number :: "nat option"
  pu_status :: "payroll_status option"

definition no_payroll_updates :: payroll_updates where
  "no_payroll_updates = \<lparr>pu_tx_hash = None, pu_block_number = None, pu_status = None\<rparr>"

definition apply_payroll_updates :: "payroll_updates \<Rightarrow> payroll \<Rightarrow> payroll" where
  "apply_payroll_updates u r =
     (let r1 = (case pu_tx_hash u of None \<Rightarrow> r | Some h \<Rightarrow> r\<lparr>pr_tx_hash := Some h\<rparr>);
          r2 = (case pu_block_number u of
                  None \<Rightarrow> r1 | Some b \<Rightarrow> r1\<lparr>pr_block_number := Some b\<rparr>)
      in (case pu_status u of None \<Rightarrow> r2 | Some s \<Rightarrow> r2\<lparr>pr_status := s\<rparr>))"

text \<open>\<open>updatePayroll\<close> is keyed by the batch identifier: it updates every row of the batch.\<close>

definition updatePayroll :: "string \<Rightarrow> payroll_updates \<Rightarrow> payroll list \<Rightarrow> payroll list" where
  "updatePayroll payrollId u tbl =
     (if u = no_payroll_updates then tbl
      else map (\<lambda>r. if payroll_id r = payrollId then apply_payroll_updates u r else r) tbl)"

text \<open>
  \<open>getPayrollsByPayrollId\<close>: the rows of one batch. They are ordered by a timestamp that
  the rows of a batch share, so the store's own order is kept.
\<close>

definition getPayrollsByPayrollId :: "string \<Rightarrow> payroll list \<Rightarrow> payroll list" where
  "getPayrollsByPayrollId payrollId tbl = filter (\<lambda>r. payroll_id r = payrollId) tbl"

text \<open>The number of token transfers the chain has accepted from the custody wallet.\<close>

fun is_transfer_effect :: "effect \<Rightarrow> bool" where
  "is_transfer_effect (Chain e) = is_broadcast e"
| "is_transfer_effect e = False"

definition token_transfers :: "world \<Rightarrow> nat" where
  "token_transfers w = length (filter is_transfer_effect (effects w))"

section \<open>controllers/webhookController.ts\<close>

record stripe_payout =
  po_id :: string
  failure_code :: "string option"
  failure_message :: "string option"

record payment_intent =
  pi_id :: string
  pi_metadata_wallet_address :: "string option"
  last_payment_error_message :: "string option"

datatype stripe_event =
    PayoutPaid stripe_payout
  | PayoutFailed stripe_payout
  | PayoutCanceled stripe_payout
  | PaymentIntentSucceeded payment_intent
  | PaymentIntentPaymentFailed payment_intent
  | PaymentIntentCanceled payment_intent
  | OtherEvent string

text \<open>
  What the outside world answers while one webhook request is handled:
  \<open>we_constructEvent\<close> is \<open>stripe.webhooks.constructEvent(payload, signature, secret)\<close>, which
  returns the event or throws when the signature is not authentic; \<open>we_chain\<close>,
  \<open>we_receipt_of\<close> and \<open>parseUnits\<close> serve the custody transfer.
\<close>

record webhook_env =
  we_constructEvent :: "string \<Rightarrow> string \<Rightarrow> string \<Rightarrow> js_error + stripe_event"
  we_webhookSecret :: string
  we_offrampWallet :: "string option"
  we_parseUnits :: "string \<Rightarrow> nat \<Rightarrow> js_error + int"
  we_chain :: "nat \<Rightarrow> rpc_attempt"
  we_receipt_of :: "string \<Rightarrow> js_error + tx_receipt option"
  we_now :: nat

definition starts_with_Stripe :: "string option \<Rightarrow> bool" where
  "starts_with_Stripe t = (case t of None \<Rightarrow> False | Some s \<Rightarrow> s \<noteq> [] \<and> prefix ''Stripe'' s)"

text \<open>\<open>verifyWebhookSignature\<close> of utils/stripe.ts.\<close>

definition verifyWebhookSignature ::
  "webhook_env \<Rightarrow> string \<Rightarrow> string \<Rightarrow> string \<Rightarrow> js_error + stripe_event" where
  "verifyWebhookSignature env payload signature secret =
     (case we_constructEvent env payload signature secret of
        Inr event \<Rightarrow> Inr event
      | Inl error \<Rightarrow>
          if starts_with_Stripe (etype error)
          then Inl (new_Error (''Stripe webhook error: '' @ message error))
          else Inl (new_Error (''Failed to verify webhook signature: '' @ error_to_string error)))"

definition handlePayoutPaid :: "webhook_env \<Rightarrow> stripe_payout \<Rightarrow> world \<Rightarrow> (js_error + unit) \<times> world" where
  "handlePayoutPaid env payout w =
     (case getCashoutByPayoutId (po_id payout) (cashouts w) of
        None \<Rightarrow> (Inr (), w)
      | Some cashout \<Rightarrow>
          (Inr (),
           w\<lparr>cashouts := updateCashout (we_now env) (c_id cashout)
                 (no_cashout_updates\<lparr>cu_status := Some Paid, cu_completed_at := Some (we_now env)\<rparr>)
                 (cashouts w)\<rparr>))"

definition handlePayoutFailed :: "webhook_env \<Rightarrow> stripe_payout \<Rightarrow> world \<Rightarrow> (js_error + unit) \<times> world" where
  "handlePayoutFailed env payout w =
     (case getCashoutByPayoutId (po_id payout) (cashouts w) of
        None \<Rightarrow> (Inr (), w)
      | Some cashout \<Rightarrow>
          (let failureCode = (if truthy (failure_code payout) then the (failure_code payout)
                              else ''unknown'');
               failureMessage = (if truthy (failure_message payout) then the (failure_message payout)
                                 else ''Payout failed'')
           in (Inr (),
               w\<lparr>cashouts := updateCashout (we_now env) (c_id cashout)
                     (no_cashout_updates\<lparr>cu_status := Some CashoutFailed,
                        cu_error_message :=
                          Some (''Stripe payout failed: '' @ failureCode @ '' - '' @ failureMessage)\<rparr>)
                     (cashouts w)\<rparr>)))"

definition handlePayoutCanceled :: "webhook_env \<Rightarrow> stripe_payout \<Rightarrow> world \<Rightarrow> (js_error + unit) \<times> world" where
  "handlePayoutCanceled env payout w =
     (case getCashoutByPayoutId (po_id payout) (cashouts w) of
        None \<Rightarrow> (Inr (), w)
      | Some cashout \<Rightarrow>
          (Inr (),
           w\<lparr>cashouts := updateCashout (we_now env) (c_id cashout)
                 (no_cashout_updates\<lparr>cu_status := Some CashoutCanceled,
                    cu_error_message := Some ''Stripe payout was canceled''\<rparr>)
                 (cashouts w)\<rparr>))"

text \<open>
  The part of \<open>handlePaymentIntentSucceeded\<close> that follows the idempotency gate and the
  switch to \<open>processing\<close>: the custody transfer, the wait for its receipt and the final
  update. A throw leaves the store as it was when the throw happened.
\<close>

definition settle_payment ::
  "webhook_env \<Rightarrow> payment_intent \<Rightarrow> payment \<Rightarrow> world \<Rightarrow> (js_error + unit) \<times> world" where
  "settle_payment env paymentIntent payment w =
     (let walletAddress = or_else (pi_metadata_wallet_address paymentIntent)
                            (Some (wallet_address payment))
      in if \<not> truthy walletAddress then
           (Inl (new_Error ''Wallet address not found in payment intent metadata''), w)
         else
           (let amountUSDT = amount_usdt payment;
                (tx, evs) = transferUSDTFromOfframp (we_parseUnits env) (we_offrampWallet env)
                              (we_chain env) (the walletAddress) amountUSDT default_maxRetries;
                w1 = log_effects (map Chain evs) w
            in case tx of
                 Inl error \<Rightarrow>
                   (Inl (new_Error (''Failed to create USDT transfer transaction: ''
                                     @ message error)), w1)
               | Inr txHash \<Rightarrow>
                   (case waitForTransaction (we_receipt_of env txHash) of
                      Inl error \<Rightarrow>
                        (Inl (new_Error (''Failed to confirm transaction: '' @ message error)), w1)
                    | Inr None \<Rightarrow>
                        (Inl (new_Error ''Transaction failed on-chain. Status: undefined''), w1)
                    | Inr (Some receipt) \<Rightarrow>
                        if rc_status receipt \<noteq> 1 then
                          (Inl (new_Error (''Transaction failed on-chain. Status: ''
                                            @ show_nat (int (rc_status receipt)))), w1)
                        else
                          (Inr (),
                           w1\<lparr>payments := updatePayment (we_now env) (p_id payment)
                                 (no_payment_updates\<lparr>u_tx_hash := Some (rc_hash receipt),
                                    u_block_number := Some (rc_blockNumber receipt),
                                    u_status := Some Completed,
                                    u_completed_at := Some (we_now env)\<rparr>)
                                 (payments w1)\<rparr>))))"

definition handlePaymentIntentSucceeded ::
  "webhook_env \<Rightarrow> payment_intent \<Rightarrow> world \<Rightarrow> (js_error + unit) \<times> world" where
  "handlePaymentIntentSucceeded env paymentIntent w =
     (case getPaymentByPaymentIntentId (pi_id paymentIntent) (payments w) of
        None \<Rightarrow> (Inr (), w)
      | Some payment \<Rightarrow>
          if p_status payment = Completed \<or> truthy (tx_hash payment) then (Inr (), w)
          else
            (let w1 = w\<lparr>payments := updatePayment (we_now env) (p_id payment)
                          (no_payment_updates\<lparr>u_status := Some Processing\<rparr>) (payments w)\<rparr>
             in case settle_payment env paymentIntent payment w1 of
                  (Inr u, w2) \<Rightarrow> (Inr u, w2)
                | (Inl error, w2) \<Rightarrow>
                    (case getPaymentByPaymentIntentId (pi_id paymentIntent) (payments w2) of
                       None \<Rightarrow> (Inl error, w2)
                     | Some failed \<Rightarrow>
                         (Inl error,
                          w2\<lparr>payments := updatePayment (we_now env) (p_id failed)
                                (no_payment_updates\<lparr>u_status := Some Failed,
                                   u_error_message :=
                                     Some (if message error = [] then ''Failed to transfer USDT''
                                           else message error)\<rparr>)
                                (payments w2)\<rparr>))))"

definition handlePaymentIntentFailed ::
  "webhook_env \<Rightarrow> payment_intent \<Rightarrow> world \<Rightarrow> (js_error + unit) \<times> world" where
  "handlePaymentIntentFailed env paymentIntent w =
     (case getPaymentByPaymentIntentId (pi_id paymentIntent) (payments w) of
        None \<Rightarrow> (Inr (), w)
      | Some payment \<Rightarrow>
          (let failureMessage = (if truthy (last_payment_error_message paymentIntent)
                                 then the (last_payment_error_message paymentIntent)
                                 else ''Payment failed'')
           in (Inr (),
               w\<lparr>payments := updatePayment (we_now env) (p_id payment)
                     (no_payment_updates\<lparr>u_status := Some Failed,
                        u_error_message := Some (''Stripe payment failed: '' @ failureMessage)\<rparr>)
                     (payments w)\<rparr>)))"

definition handlePaymentIntentCanceled ::
  "webhook_env \<Rightarrow> payment_intent \<Rightarrow> world \<Rightarrow> (js_error + unit) \<times> world" where
  "handlePaymentIntentCanceled env paymentIntent w =
     (case getPaymentByPaymentIntentId (pi_id paymentIntent) (payments w) of
        None \<Rightarrow> (Inr (), w)
      | Some payment \<Rightarrow>
          (Inr (),
           w\<lparr>payments := updatePayment (we_now env) (p_id payment)
                 (no_payment_updates\<lparr>u_status := Some Canceled,
                    u_error_message := Some ''Payment intent was canceled''\<rparr>)
                 (payments w)\<rparr>))"

fun dispatch_event :: "webhook_env \<Rightarrow> stripe_event \<Rightarrow> world \<Rightarrow> (js_error + unit) \<times> world" where
  "dispatch_event env (PayoutPaid payout) w = handlePayoutPaid env payout w"
| "dispatch_event env (PayoutFailed payout) w = handlePayoutFailed env payout w"
| "dispatch_event env (PayoutCanceled payout) w = handlePayoutCanceled env payout w"
| "dispatch_event env (PaymentIntentSucceeded intent) w = handlePaymentIntentSucceeded env intent w"
| "dispatch_event env (PaymentIntentPaymentFailed intent) w = handlePaymentIntentFailed env intent w"
| "dispatch_event env (PaymentIntentCanceled intent) w = handlePaymentIntentCanceled env intent w"
| "dispatch_event env (OtherEvent t) w = (Inr (), w)"

text \<open>
  The HTTP response of the webhook endpoint: its status code and body. The body is either
  \<open>{error}\<close> or \<open>{received: true}\<close>, the latter with an optional \<open>error\<close> text.
\<close>

datatype webhook_body = ErrorOnly string | Received "string option"

record webhook_request =
  stripe_signature :: "string option"
  wr_body :: string

definition handleStripeWebhook ::
  "webhook_env \<Rightarrow> webhook_request \<Rightarrow> world \<Rightarrow> (nat \<times> webhook_body) \<times> world" where
  "handleStripeWebhook env req w =
     (let signature = stripe_signature req
      in if \<not> truthy signature then ((400, ErrorOnly ''Missing stripe-signature header''), w)
         else
           (case verifyWebhookSignature env (wr_body req) (the signature) (we_webhookSecret env) of
              Inl error \<Rightarrow> ((200, Received (Some (message error))), w)
            | Inr event \<Rightarrow>
                (case dispatch_event env event w of
                   (Inr u, w1) \<Rightarrow> ((200, Received None), w1)
                 | (Inl error, w1) \<Rightarrow> ((200, Received (Some (message error))), w1))))"

section \<open>controllers/cashoutController.ts: \<open>requestCashout\<close>\<close>

text \<open>
  The amount comparison that \<open>requestCashout\<close> and \<open>executePayroll\<close> both write out:
  \<open>Math.abs(parseFloat(a) - parseFloat(b)) > 0.01\<close>. The literal \<open>0.01\<close> is the double
  nearest to 1/100.
\<close>

definition amount_diff :: "string \<Rightarrow> string \<Rightarrow> jsnum" where
  "amount_diff a b = js_abs (js_sub (parseFloat a) (parseFloat b))"

definition exceeds_tolerance :: "string \<Rightarrow> string \<Rightarrow> bool" where
  "exceeds_tolerance a b = js_gt (amount_diff a b) (to_double (1 / 100))"

text \<open>
  The least exact difference of two doubles that the comparison refuses (lemma
  \<open>exceeds_tolerance_threshold\<close>): the midpoint between the double nearest 1/100 and the
  next double, less than \<open>10^-17\<close> above 1/100.
\<close>

definition tolerance_threshold :: rat where
  "tolerance_threshold = 11529215046068471 / 2 ^ 60"

text \<open>The JSON body of the request; a missing field is \<open>None\<close>.\<close>

record cashout_request =
  rq_amount :: "string option"
  rq_currency :: "string option"
  rq_bankAccountId :: "string option"
  rq_connectedAccountId :: "string option"
  rq_signature :: "string option"
  rq_message :: "string option"
  rq_txHash :: "string option"
  rq_employeeAddress :: "string option"
  rq_address :: "string option"

text \<open>The result of \<open>verifyTransferTransaction\<close>: the decoded transfer event.\<close>

record transfer_info =
  ti_from :: string
  ti_to :: string
  ti_amount :: string

text \<open>
  What the outside world answers while one request is handled. \<open>ce_isAddress\<close> is
  \<open>ethers.isAddress\<close>, \<open>ce_recover\<close> is \<open>ethers.verifyMessage\<close>, \<open>ce_regex_other\<close> is the
  outcome of the regular-expression engine on a pattern outside the modelled fragment (a
  thrown syntax error or a match result), \<open>ce_verifyTransfer\<close> is the chain look-up
  \<open>verifyTransferTransaction\<close>, \<open>ce_rate\<close> the exchange-rate service, \<open>ce_toString\<close> the
  conversion of a number to text, and the last two are the payment processor's answers.
\<close>

record cashout_env =
  ce_isAddress :: "string \<Rightarrow> bool"
  ce_recover :: "string \<Rightarrow> string \<Rightarrow> js_error + string"
  ce_regex_other :: "js_error + bool"
  ce_offrampWallet :: "string option"
  ce_verifyTransfer :: "string \<Rightarrow> js_error + transfer_info"
  ce_rate :: "string \<Rightarrow> string \<Rightarrow> js_error + jsnum"
  ce_toString :: "jsnum \<Rightarrow> string"
  ce_transfers_create :: "js_error + unit"
  ce_payouts_create :: "js_error + string"
  ce_now :: nat

datatype cashout_body =
    CError string
  | CErrorDetails string string "string option"
  | CInvalidMessage string string
  | CAmountMismatch jsnum jsnum
  | CExisting nat cashout_status "string option" "string option" string string
  | CCreated nat string string string string

text \<open>The wrappers of utils/stripe.ts turn a processor error into a new \<open>Error\<close>.\<close>

definition wrap_stripe_error :: "string \<Rightarrow> js_error \<Rightarrow> js_error" where
  "wrap_stripe_error what error =
     (if starts_with_Stripe (etype error) then new_Error (''Stripe error: '' @ message error)
      else new_Error (what @ error_to_string error))"

definition createPayout :: "cashout_env \<Rightarrow> js_error + string" where
  "createPayout env =
     (case ce_payouts_create env of
        Inl error \<Rightarrow> Inl (wrap_stripe_error ''Failed to create payout: '' error)
      | Inr payout_id \<Rightarrow> Inr payout_id)"

definition transferToConnectedAccount :: "cashout_env \<Rightarrow> js_error + unit" where
  "transferToConnectedAccount env =
     (case ce_transfers_create env of
        Inl error \<Rightarrow> Inl (wrap_stripe_error ''Failed to transfer to connected account: '' error)
      | Inr u \<Rightarrow> Inr u)"

definition supported_currency :: "string option \<Rightarrow> bool" where
  "supported_currency currency =
     (truthy currency \<and> toLowerCase (the currency) \<in> set [''usd'', ''eur''])"

text \<open>Lines 21 to 43: the six checks on the fields of the request, in the order of the code.\<close>

definition cashout_field_error :: "cashout_env \<Rightarrow> cashout_request \<Rightarrow> (nat \<times> cashout_body) option" where
  "cashout_field_error env req =
     (let employeeAddress = or_else (rq_employeeAddress req) (rq_address req)
      in if \<not> (truthy employeeAddress \<and> ce_isAddress env (the employeeAddress)) then
           Some (400, CError ''Invalid employee address'')
         else if \<not> truthy (rq_amount req) then Some (400, CError ''Invalid amount'')
         else if js_le (parseFloat (the (rq_amount req))) (Fin 0) then
           Some (400, CError ''Invalid amount'')
         else if \<not> supported_currency (rq_currency req) then
           Some (400, CError ''Invalid currency. Supported: usd, eur'')
         else if \<not> truthy (rq_bankAccountId req) then
           Some (400, CError ''Bank account ID is required'')
         else if \<not> (truthy (rq_signature req) \<and> truthy (rq_message req)) then
           Some (400, CError ''Signature and message are required'')
         else if \<not> truthy (rq_txHash req) then
           Some (400, CError ''Transaction hash is required'')
         else None)"

text \<open>
  The outer \<open>catch\<close>: the errors that reach it carry no status code, so the response is
  500 with the error's message.
\<close>

definition cashout_failure :: "js_error \<Rightarrow> nat \<times> cashout_body" where
  "cashout_failure error =
     (500, CError (if message error = [] then ''Failed to request cashout'' else message error))"

text \<open>
  Lines 21 to 106: every check that precedes the duplicate look-up. The result is the
  response that ends the request, or the decoded transfer once all checks have passed,
  together with the look-ups made on the way. (The employee record that line 62 reads from
  the store is not used afterwards and is left out.)
\<close>

definition cashout_checks ::
  "cashout_env \<Rightarrow> cashout_request \<Rightarrow> ((nat \<times> cashout_body) + transfer_info) \<times> effect list" where
  "cashout_checks env req =
     (case cashout_field_error env req of
        Some response \<Rightarrow> (Inl response, [])
      | None \<Rightarrow>
          (let employeeAddress = the (or_else (rq_employeeAddress req) (rq_address req));
               amount = the (rq_amount req);
               msg = the (rq_message req);
               txHash = the (rq_txHash req)
           in if \<not> verifySignature (ce_recover env) msg (the (rq_signature req)) employeeAddress
              then (Inl (401, CError ''Invalid signature''), [])
              else
                (case (case validateCashoutMessage msg employeeAddress amount of
                         Some b \<Rightarrow> Inr b
                       | None \<Rightarrow> ce_regex_other env) of
                   Inl error \<Rightarrow> (Inl (cashout_failure error), [])
                 | Inr False \<Rightarrow>
                     (Inl (400, CInvalidMessage msg
                             (''I request cashout '' @ amount @ '' USDT at ...''
                                @ [CHR 0x5C, CHR ''n'', CHR 0x5C, CHR ''n''] @ ''Address: ''
                                @ employeeAddress)), [])
                 | Inr True \<Rightarrow>
                     (case ce_offrampWallet env of
                        None \<Rightarrow> (Inl (cashout_failure (new_Error ''Offramp wallet not configured'')), [])
                      | Some offrampAddress \<Rightarrow>
                          (case ce_verifyTransfer env txHash of
                             Inl error \<Rightarrow>
                               (if includes_str (message error) ''403''
                                     \<or> includes_str (message error) ''Forbidden''
                                then
                                  (Inl (503, CErrorDetails
                                     ''Blockchain RPC error. Please try again later or contact support.''
                                     (message error) None), [ChainLookup txHash])
                                else
                                  (Inl (400, CErrorDetails ''Failed to verify transaction on-chain''
                                     (message error) (Some txHash)), [ChainLookup txHash]))
                           | Inr transferInfo \<Rightarrow>
                               if toLowerCase (ti_from transferInfo) \<noteq> toLowerCase employeeAddress
                               then (Inl (400, CError
                                      ''Transaction sender does not match employee address''),
                                     [ChainLookup txHash])
                               else if toLowerCase (ti_to transferInfo) \<noteq> toLowerCase offrampAddress
                               then (Inl (400, CError
                                      ''Transaction recipient is not the offramp wallet''),
                                     [ChainLookup txHash])
                               else if exceeds_tolerance (ti_amount transferInfo) amount
                               then (Inl (400, CAmountMismatch (parseFloat amount)
                                             (parseFloat (ti_amount transferInfo))),
                                     [ChainLookup txHash])
                               else (Inr transferInfo, [ChainLookup txHash]))))))"

text \<open>
  Lines 124 to 211: the exchange rate, the new Cashout row and the payout. The rate falls
  back to 1 when the look-up throws.
\<close>

definition create_cashout_and_payout ::
  "cashout_env \<Rightarrow> cashout_request \<Rightarrow> world \<Rightarrow> (nat \<times> cashout_body) \<times> world" where
  "create_cashout_and_payout env req w =
     (let employeeAddress = the (or_else (rq_employeeAddress req) (rq_address req));
          amount = the (rq_amount req);
          currency = toLowerCase (the (rq_currency req));
          bankAccountId = the (rq_bankAccountId req);
          txHash = the (rq_txHash req);
          exchangeRate = (case ce_rate env ''usdt'' currency of Inl error \<Rightarrow> Fin 1 | Inr r \<Rightarrow> r);
          fiatAmount = js_mul (parseFloat amount) exchangeRate;
          (cashoutId, w1) =
            createCashout (ce_now env)
              \<lparr>c_id = 0, employee_address = employeeAddress, c_amount_usdt = amount,
               c_fiat_currency = currency, fiat_amount = Some (ce_toString env fiatAmount),
               c_exchange_rate = Some (ce_toString env exchangeRate), tx_hash_onchain = txHash,
               payout_id_stripe = None, stripe_bank_account_id = Some bankAccountId,
               c_status = PendingTransfer, c_error_message = None, c_created_at = 0,
               c_updated_at = 0, c_completed_at = None\<rparr>
              (log_effects [RateLookup ''usdt'' currency] w);
          (payout, es) =
            (if truthy (rq_connectedAccountId req) then
               (case transferToConnectedAccount env of
                  Inl error \<Rightarrow>
                    (Inl error, [StripeTransfer fiatAmount currency (the (rq_connectedAccountId req))])
                | Inr u \<Rightarrow>
                    (createPayout env,
                     [StripeTransfer fiatAmount currency (the (rq_connectedAccountId req)),
                      Pause 2000,
                      StripePayout fiatAmount currency bankAccountId (rq_connectedAccountId req)]))
             else (createPayout env, [StripePayout fiatAmount currency bankAccountId None]));
          w2 = log_effects es w1
      in case payout of
           Inr payout_id \<Rightarrow>
             ((200, CCreated cashoutId payout_id (ce_toString env fiatAmount) currency txHash),
              w2\<lparr>cashouts := updateCashout (ce_now env) cashoutId
                     (no_cashout_updates\<lparr>cu_payout_id_stripe := Some payout_id,
                        cu_status := Some PendingPayout\<rparr>)
                     (cashouts w2)\<rparr>)
         | Inl error \<Rightarrow>
             (cashout_failure error,
              w2\<lparr>cashouts := updateCashout (ce_now env) cashoutId
                     (no_cashout_updates\<lparr>cu_status := Some CashoutFailed,
                        cu_error_message :=
                          Some (if message error = [] then ''Failed to create Stripe payout''
                                else message error)\<rparr>)
                     (cashouts w2)\<rparr>))"

definition requestCashout ::
  "cashout_env \<Rightarrow> cashout_request \<Rightarrow> world \<Rightarrow> (nat \<times> cashout_body) \<times> world" where
  "requestCashout env req w =
     (case cashout_checks env req of
        (Inl response, es) \<Rightarrow> (response, log_effects es w)
      | (Inr transferInfo, es) \<Rightarrow>
          (let w1 = log_effects es w;
               txHash = the (rq_txHash req)
           in case getCashoutByTxHash txHash (cashouts w1) of
                Some existingCashout \<Rightarrow>
                  ((200, CExisting (c_id existingCashout) (c_status existingCashout)
                           (or_else (payout_id_stripe existingCashout) None)
                           (fiat_amount existingCashout)
                           (c_fiat_currency existingCashout) txHash),
                   w1)
              | None \<Rightarrow> create_cashout_and_payout env req w1))"

section \<open>controllers/payrollController.ts: \<open>executePayroll\<close>\<close>

record payroll_request =
  er_payrollId :: "string option"
  er_txHash :: "string option"
  er_blockNumber :: "nat option"

text \<open>The result of \<open>verifyPayrollTransaction\<close>: the transfer events sent by the employer.\<close>

record payroll_transfer =
  tr_from :: string
  tr_to :: string
  tr_amount :: string

record payroll_verification =
  pv_transfers :: "payroll_transfer list"
  pv_blockNumber :: nat

datatype payroll_body =
    PError string
  | PAmountMismatch string string string
  | PMissing "string list"
  | PVerificationFailed string
  | PSuccess string string nat nat nat

text \<open>
  A \<open>Map\<close> keeps its keys in the order of their first insertion; setting an existing key
  replaces its value in place. A \<open>Set\<close> is a list without repetition.
\<close>

fun map_set :: "string \<Rightarrow> string \<Rightarrow> (string \<times> string) list \<Rightarrow> (string \<times> string) list" where
  "map_set k v [] = [(k, v)]"
| "map_set k v ((k', v') # m) = (if k = k' then (k, v) # m else (k', v') # map_set k v m)"

definition set_add :: "string \<Rightarrow> string list \<Rightarrow> string list" where
  "set_add x s = (if x \<in> set s then s else s @ [x])"

text \<open>Lines 152 to 156: the expected recipients and their amounts.\<close>

definition expected_employees :: "payroll list \<Rightarrow> (string \<times> string) list" where
  "expected_employees batch =
     foldl (\<lambda>m r. map_set (toLowerCase (pr_employee_address r)) (pr_amount_usdt r) m) [] batch"

text \<open>
  Lines 158 to 175: the loop over the verified transfers. It ends the request at the first
  matched transfer whose amount is out of tolerance; otherwise it collects the recipients
  that were paid.
\<close>

fun reconcile ::
  "(string \<times> string) list \<Rightarrow> payroll_transfer list \<Rightarrow> string list
     \<Rightarrow> (nat \<times> payroll_body) + string list" where
  "reconcile expected [] received = Inr received"
| "reconcile expected (transfer # rest) received =
     (let to = toLowerCase (tr_to transfer)
      in case map_of expected to of
           None \<Rightarrow> reconcile expected rest received
         | Some expectedAmount \<Rightarrow>
             if expectedAmount = [] then reconcile expected rest received
             else if exceeds_tolerance (tr_amount transfer) expectedAmount then
               Inl (400, PAmountMismatch (tr_to transfer) expectedAmount (tr_amount transfer))
             else reconcile expected rest (set_add to received))"

text \<open>\<open>Promise.all(payrolls.map(payroll => updatePayroll(payroll.payroll_id, updates)))\<close>.\<close>

definition update_each :: "payroll_updates \<Rightarrow> payroll list \<Rightarrow> payroll list \<Rightarrow> payroll list" where
  "update_each u batch tbl = foldl (\<lambda>t r. updatePayroll (payroll_id r) u t) tbl batch"

definition executePayroll ::
  "(string \<Rightarrow> string \<Rightarrow> js_error + payroll_verification) \<Rightarrow> payroll_request \<Rightarrow> world
     \<Rightarrow> (nat \<times> payroll_body) \<times> world" where
  "executePayroll verifyPayrollTransaction req w =
     (if \<not> truthy (er_payrollId req) then ((400, PError ''payrollId is required''), w)
      else if \<not> truthy (er_txHash req) then ((400, PError ''txHash is required''), w)
      else
        (let payrollId = the (er_payrollId req);
             txHash = the (er_txHash req);
             batch = getPayrollsByPayrollId payrollId (payrolls w)
         in case batch of
              [] \<Rightarrow> ((404, PError ''Payroll not found''), w)
            | first # others \<Rightarrow>
                (let employerAddress = employer_address first;
                     w1 = log_effects [PayrollLookup txHash employerAddress] w
                 in case verifyPayrollTransaction txHash employerAddress of
                      Inl error \<Rightarrow>
                        ((400, PVerificationFailed (message error)),
                         w1\<lparr>payrolls := update_each
                               \<lparr>pu_tx_hash = Some txHash, pu_block_number = er_blockNumber req,
                                pu_status = Some PayrollFailed\<rparr> batch (payrolls w1)\<rparr>)
                    | Inr verification \<Rightarrow>
                        (let expectedEmployees = expected_employees batch
                         in case reconcile expectedEmployees (pv_transfers verification) [] of
                              Inl response \<Rightarrow> (response, w1)
                            | Inr receivedEmployees \<Rightarrow>
                                if length receivedEmployees \<noteq> length expectedEmployees then
                                  ((400, PMissing (filter (\<lambda>addr. addr \<notin> set receivedEmployees)
                                                     (map fst expectedEmployees))), w1)
                                else
                                  (let w2 = w1\<lparr>payrolls := update_each
                                              \<lparr>pu_tx_hash = Some txHash,
                                               pu_block_number = Some (pv_blockNumber verification),
                                               pu_status = Some PayrollCompleted\<rparr>
                                              batch (payrolls w1)\<rparr>
                                   in ((200, PSuccess payrollId txHash (pv_blockNumber verification)
                                          (length (getPayrollsByPayrollId payrollId (payrolls w2)))
                                          (length (pv_transfers verification))),
                                       w2))))))"

text \<open>
  The words of the reconciliation policy, stated on the expected map and the observed
  transfers: a recipient is expected when the map holds a non-empty amount for it; a
  transfer is mismatched when it pays an expected recipient an amount out of tolerance;
  the missing recipients are the keys of the map that are not both expected and paid.
\<close>

definition expects :: "(string \<times> string) list \<Rightarrow> string \<Rightarrow> bool" where
  "expects expected addr = (case map_of expected addr of None \<Rightarrow> False | Some a \<Rightarrow> a \<noteq> [])"

definition mismatched :: "(string \<times> string) list \<Rightarrow> payroll_transfer \<Rightarrow> bool" where
  "mismatched expected transfer =
     (case map_of expected (toLowerCase (tr_to transfer)) of
        None \<Rightarrow> False
      | Some a \<Rightarrow> a \<noteq> [] \<and> exceeds_tolerance (tr_amount transfer) a)"

definition paid_to :: "payroll_transfer list \<Rightarrow> string \<Rightarrow> bool" where
  "paid_to transfers addr = list_ex (\<lambda>transfer. toLowerCase (tr_to transfer) = addr) transfers"

definition missing_recipients :: "(string \<times> string) list \<Rightarrow> payroll_transfer list \<Rightarrow> string list" where
  "missing_recipients expected transfers =
     filter (\<lambda>addr. \<not> (expects expected addr \<and> paid_to transfers addr)) (map fst expected)"

text \<open>The responses that report an amount out of tolerance.\<close>

fun is_amount_mismatch :: "payroll_body \<Rightarrow> bool" where
  "is_amount_mismatch (PAmountMismatch to expected received) = True"
| "is_amount_mismatch body = False"

text \<open>The rows of a batch once it is settled by transaction \<open>txHash\<close> in block \<open>blockNumber\<close>.\<close>

definition settle_batch :: "string \<Rightarrow> string \<Rightarrow> nat \<Rightarrow> payroll list \<Rightarrow> payroll list" where
  "settle_batch payrollId txHash blockNumber tbl =
     map (\<lambda>r. if payroll_id r = payrollId
              then r\<lparr>pr_tx_hash := Some txHash, pr_block_number := Some blockNumber,
                     pr_status := PayrollCompleted\<rparr>
              else r) tbl"

section \<open>controllers/paymentController.ts: \<open>createPaymentIntentHandler\<close>\<close>

record payment_request =
  pq_amount :: "string option"
  pq_currency :: "string option"
  pq_walletAddress :: "string option"

text \<open>
  What the outside world answers while one request is handled: \<open>pm_rate\<close> is the
  exchange-rate service (USDT to fiat), \<open>pm_offrampBalance\<close> the custody wallet's balance,
  \<open>pm_intents_create\<close> the payment processor's answer (the new payment intent's id and
  client secret), \<open>pm_toString\<close> the conversion of a number to text.
\<close>

record payment_env =
  pm_isAddress :: "string \<Rightarrow> bool"
  pm_rate :: "string \<Rightarrow> string \<Rightarrow> js_error + jsnum"
  pm_offrampBalance :: "js_error + string"
  pm_intents_create :: "js_error + string \<times> string option"
  pm_toString :: "jsnum \<Rightarrow> string"
  pm_now :: nat

datatype payment_body =
    PayError string
  | PayLimit string string
  | PayInsufficient string string
  | PayCreated string "string option" jsnum string string string string

text \<open>The per-transaction cap of line 42.\<close>

definition max_purchase_usdt :: jsnum where
  "max_purchase_usdt = Fin 5"

text \<open>Lines 30 to 39: the fiat-to-token rate, 1 when the look-up throws, and the token amount.\<close>

definition onramp_exchange_rate :: "payment_env \<Rightarrow> string \<Rightarrow> jsnum" where
  "onramp_exchange_rate env currency =
     (case pm_rate env ''usdt'' currency of
        Inl error \<Rightarrow> Fin 1
      | Inr usdtToFiatRate \<Rightarrow> js_recip usdtToFiatRate)"

definition onramp_amount_usdt :: "payment_env \<Rightarrow> payment_request \<Rightarrow> jsnum" where
  "onramp_amount_usdt env req =
     js_mul (parseFloat (the (pq_amount req)))
       (onramp_exchange_rate env (toLowerCase (the (pq_currency req))))"

text \<open>\<open>createPaymentIntent\<close> of utils/stripe.ts.\<close>

definition createPaymentIntent :: "payment_env \<Rightarrow> js_error + string \<times> string option" where
  "createPaymentIntent env =
     (case pm_intents_create env of
        Inl error \<Rightarrow> Inl (wrap_stripe_error ''Failed to create payment intent: '' error)
      | Inr paymentIntent \<Rightarrow> Inr paymentIntent)"

definition payment_failure :: "js_error \<Rightarrow> nat \<times> payment_body" where
  "payment_failure error =
     (500, PayError (if message error = [] then ''Failed to create payment intent''
                     else message error))"

definition createPaymentIntentHandler ::
  "payment_env \<Rightarrow> payment_request \<Rightarrow> world \<Rightarrow> (nat \<times> payment_body) \<times> world" where
  "createPaymentIntentHandler env req w =
     (if \<not> (truthy (pq_walletAddress req) \<and> pm_isAddress env (the (pq_walletAddress req))) then
        ((400, PayError ''Invalid wallet address''), w)
      else if \<not> truthy (pq_amount req) then ((400, PayError ''Invalid amount''), w)
      else if js_le (parseFloat (the (pq_amount req))) (Fin 0) then
        ((400, PayError ''Invalid amount''), w)
      else if \<not> supported_currency (pq_currency req) then
        ((400, PayError ''Invalid currency. Supported: usd, eur''), w)
      else
        (let amount = the (pq_amount req);
             currency = toLowerCase (the (pq_currency req));
             walletAddress = the (pq_walletAddress req);
             exchangeRate = onramp_exchange_rate env currency;
             amountUSDT = onramp_amount_usdt env req;
             w1 = log_effects [RateLookup ''usdt'' currency] w
         in if js_gt amountUSDT max_purchase_usdt then
              ((400, PayLimit ''5'' (toFixed6 (pm_toString env) amountUSDT)), w1)
            else
              (let w2 = log_effects [BalanceLookup] w1;
                   short = (case pm_offrampBalance env of
                              Inl error \<Rightarrow> None
                            | Inr offrampBalance \<Rightarrow>
                                if js_lt (parseFloat offrampBalance) amountUSDT
                                then Some offrampBalance else None)
               in case short of
                    Some offrampBalance \<Rightarrow>
                      ((400, PayInsufficient offrampBalance (toFixed6 (pm_toString env) amountUSDT)), w2)
                  | None \<Rightarrow>
                      (let w3 = log_effects
                                  [StripePaymentIntent (parseFloat amount) currency walletAddress] w2
                       in case createPaymentIntent env of
                            Inl error \<Rightarrow> (payment_failure error, w3)
                          | Inr (intent_id, client_secret) \<Rightarrow>
                              (case createPayment (pm_now env)
                                      \<lparr>p_id = 0, payment_intent_id = intent_id,
                                       wallet_address = walletAddress, amount_fiat = amount,
                                       fiat_currency = currency,
                                       amount_usdt = toFixed6 (pm_toString env) amountUSDT,
                                       exchange_rate = pm_toString env exchangeRate,
                                       tx_hash = None, block_number = None, p_status = Pending,
                                       error_message = None, created_at = 0, updated_at = 0,
                                       completed_at = None\<rparr> w3 of
                                 Inl error \<Rightarrow> (payment_failure error, w3)
                               | Inr w4 \<Rightarrow>
                                   ((200, PayCreated intent_id client_secret (parseFloat amount)
                                            currency (toFixed6 (pm_toString env) amountUSDT)
                                            (pm_toString env exchangeRate) walletAddress),
                                    w4))))))"

text \<open>The calls to the payment processor among the recorded effects.\<close>

fun is_processor_call :: "effect \<Rightarrow> bool" where
  "is_processor_call (StripePaymentIntent a c w) = True"
| "is_processor_call (StripeTransfer a c d) = True"
| "is_processor_call (StripePayout a c d acct) = True"
| "is_processor_call e = False"

definition processor_calls :: "world \<Rightarrow> effect list" where
  "processor_calls w = filter is_processor_call (effects w)"

section \<open>Concrete inputs\<close>

text \<open>
  A store with one pending Payment, and the answers of a healthy outside world: the chain
  accepts the transfer on the first attempt and confirms it, and only the signature
  \<open>good\<close> authenticates a webhook, whose event then is \<open>payment_intent.succeeded\<close> for
  the pending Payment.
\<close>

definition example_payment :: payment where
  "example_payment =
     \<lparr>p_id = 1, payment_intent_id = ''pi_1'',
      wallet_address = ''0x52908400098527886e0f7030069857d2e4169ee7'',
      amount_fiat = ''5'', fiat_currency = ''usd'', amount_usdt = ''5.000000'',
      exchange_rate = ''1'', tx_hash = None, block_number = None, p_status = Pending,
      error_message = None, created_at = 10, updated_at = 10, completed_at = None\<rparr>"

definition example_world :: world where
  "example_world =
     \<lparr>payments = [example_payment], cashouts = [], payrolls = [], next_id = 2, effects = []\<rparr>"

definition example_intent :: payment_intent where
  "example_intent =
     \<lparr>pi_id = ''pi_1'',
      pi_metadata_wallet_address = Some ''0x52908400098527886E0F7030069857D2E4169EE7'',
      last_payment_error_message = None\<rparr>"

definition example_webhook_env :: webhook_env where
  "example_webhook_env =
     \<lparr>we_constructEvent =
        (\<lambda>payload signature secret.
           if signature = ''good'' then Inr (PaymentIntentSucceeded example_intent)
           else Inl \<lparr>message =
                       ''No signatures found matching the expected signature for payload'',
                     code = None, etype = Some ''StripeSignatureVerificationError''\<rparr>),
      we_webhookSecret = ''whsec_test'',
      we_offrampWallet = Some ''0x0dc5d0F55072BDaC9a53888cDDDec39f66F02dCc'',
      we_parseUnits = (\<lambda>amount decimals. Inr 5000000),
      we_chain = (\<lambda>attempt. \<lparr>decimals_res = Inr 6, balance_res = Inr 80000000,
                               transfer_res = Inr ''0xfeed''\<rparr>),
      we_receipt_of = (\<lambda>txHash.
                         Inr (Some \<lparr>rc_hash = txHash, rc_blockNumber = 77, rc_status = 1\<rparr>)),
      we_now = 20\<rparr>"

text \<open>The same world when the chain node is unreachable.\<close>

definition example_webhook_env_down :: webhook_env where
  "example_webhook_env_down =
     example_webhook_env\<lparr>we_chain :=
       (\<lambda>attempt. \<lparr>decimals_res = Inl (new_Error ''connect ECONNREFUSED''),
                    balance_res = Inr 0, transfer_res = Inr ''0xfeed''\<rparr>)\<rparr>"

text \<open>
  A cashout request of 100.00 tokens, signed by the employee, and an outside world in which
  the submitted transaction moved 100.004 tokens from the employee to the custody wallet.
\<close>

definition example_employee :: string where
  "example_employee = ''0x52908400098527886E0F7030069857D2E4169EE7''"

definition example_custody :: string where
  "example_custody = ''0x0dc5d0F55072BDaC9a53888cDDDec39f66F02dCc''"

definition example_cashout_request :: cashout_request where
  "example_cashout_request =
     \<lparr>rq_amount = Some ''100.00'', rq_currency = Some ''USD'',
      rq_bankAccountId = Some ''ba_test_1'', rq_connectedAccountId = None,
      rq_signature = Some ''0xsigned'',
      rq_message = Some (createCashoutMessage example_employee ''100.00'' ''2024-05-01T10:00:00Z''),
      rq_txHash = Some ''0xdeposit'', rq_employeeAddress = Some example_employee,
      rq_address = None\<rparr>"

definition example_cashout_env :: cashout_env where
  "example_cashout_env =
     \<lparr>ce_isAddress = (\<lambda>a. length a = 42 \<and> prefix ''0x'' a),
      ce_recover = (\<lambda>msg signature.
                      if signature = ''0xsigned'' then Inr (toLowerCase example_employee)
                      else Inr ''0x8617e340b3d01fa5f11f306f4090fd50e238070d''),
      ce_regex_other = Inr False,
      ce_offrampWallet = Some example_custody,
      ce_verifyTransfer = (\<lambda>txHash.
                             Inr \<lparr>ti_from = toLowerCase example_employee, ti_to = example_custody,
                                  ti_amount = ''100.004''\<rparr>),
      ce_rate = (\<lambda>from to. Inr (Fin 1)),
      ce_toString = (\<lambda>x. case x of Fin a \<Rightarrow> show_nat \<lfloor>a\<rfloor> | _ \<Rightarrow> ''NaN''),
      ce_transfers_create = Inr (),
      ce_payouts_create = Inr ''po_1'',
      ce_now = 30\<rparr>"

text \<open>The same request with a signature that recovers to another address.\<close>

definition example_foreign_signature :: cashout_request where
  "example_foreign_signature = example_cashout_request\<lparr>rq_signature := Some ''0xother''\<rparr>"

text \<open>The outside world in which the submitted transaction moved 100.02 tokens.\<close>

definition example_cashout_env_excess :: cashout_env where
  "example_cashout_env_excess =
     example_cashout_env\<lparr>ce_verifyTransfer :=
       (\<lambda>txHash. Inr \<lparr>ti_from = toLowerCase example_employee, ti_to = example_custody,
                       ti_amount = ''100.02''\<rparr>)\<rparr>"

text \<open>
  A payroll batch of the employer \<open>0xE1\<close> that expects 100.00 tokens for \<open>0xA1\<close> and 20
  tokens for \<open>0xB2\<close>, and four transactions: one that pays both, one that pays \<open>0xA1\<close>
  only, one that pays \<open>0xA1\<close> 100.02 tokens, and one that pays \<open>0xA1\<close> 100.004 and then
  \<open>0xB2\<close> 20.02 tokens.
\<close>

definition example_batch_world :: world where
  "example_batch_world =
     \<lparr>payments = [], cashouts = [],
      payrolls =
        [\<lparr>pr_id = 1, payroll_id = ''batch-1'', employer_address = ''0xe1'',
           pr_employee_address = ''0xa1'', pr_amount_usdt = ''100.00'', pr_tx_hash = None,
           pr_block_number = None, pr_status = PayrollPending\<rparr>,
         \<lparr>pr_id = 2, payroll_id = ''batch-1'', employer_address = ''0xe1'',
           pr_employee_address = ''0xb2'', pr_amount_usdt = ''20'', pr_tx_hash = None,
           pr_block_number = None, pr_status = PayrollPending\<rparr>,
         \<lparr>pr_id = 3, payroll_id = ''batch-0'', employer_address = ''0xe1'',
           pr_employee_address = ''0xa1'', pr_amount_usdt = ''7'', pr_tx_hash = None,
           pr_block_number = None, pr_status = PayrollPending\<rparr>],
      next_id = 4, effects = []\<rparr>"

definition example_payroll_request :: payroll_request where
  "example_payroll_request =
     \<lparr>er_payrollId = Some ''batch-1'', er_txHash = Some ''0xpay'', er_blockNumber = None\<rparr>"

definition pays_both :: "string \<Rightarrow> string \<Rightarrow> js_error + payroll_verification" where
  "pays_both txHash employer =
     Inr \<lparr>pv_transfers =
            [\<lparr>tr_from = ''0xE1'', tr_to = ''0xA1'', tr_amount = ''100.004''\<rparr>,
             \<lparr>tr_from = ''0xE1'', tr_to = ''0xB2'', tr_amount = ''20.0''\<rparr>],
          pv_blockNumber = 9\<rparr>"

definition pays_first_only :: "string \<Rightarrow> string \<Rightarrow> js_error + payroll_verification" where
  "pays_first_only txHash employer =
     Inr \<lparr>pv_transfers = [\<lparr>tr_from = ''0xE1'', tr_to = ''0xA1'', tr_amount = ''100.0''\<rparr>],
          pv_blockNumber = 9\<rparr>"

definition pays_first_too_much :: "string \<Rightarrow> string \<Rightarrow> js_error + payroll_verification" where
  "pays_first_too_much txHash employer =
     Inr \<lparr>pv_transfers = [\<lparr>tr_from = ''0xE1'', tr_to = ''0xA1'', tr_amount = ''100.02''\<rparr>],
          pv_blockNumber = 9\<rparr>"

definition pays_second_too_much :: "string \<Rightarrow> string \<Rightarrow> js_error + payroll_verification" where
  "pays_second_too_much txHash employer =
     Inr \<lparr>pv_transfers =
            [\<lparr>tr_from = ''0xE1'', tr_to = ''0xA1'', tr_amount = ''100.004''\<rparr>,
             \<lparr>tr_from = ''0xE1'', tr_to = ''0xB2'', tr_amount = ''20.02''\<rparr>],
          pv_blockNumber = 9\<rparr>"

text \<open>
  An on-ramp request for 4 dollars, and outside worlds in which the exchange-rate service
  answers 0.1 fiat per token, respectively throws.
\<close>

definition example_payment_request :: payment_request where
  "example_payment_request =
     \<lparr>pq_amount = Some ''4'', pq_currency = Some ''usd'',
      pq_walletAddress = Some example_employee\<rparr>"

definition example_payment_env :: payment_env where
  "example_payment_env =
     \<lparr>pm_isAddress = (\<lambda>a. length a = 42 \<and> prefix ''0x'' a),
      pm_rate = (\<lambda>from to. Inr (to_double (1 / 10))),
      pm_offrampBalance = Inr ''80.0'',
      pm_intents_create = Inr (''pi_2'', Some ''pi_2_secret''),
      pm_toString = (\<lambda>x. case x of Fin a \<Rightarrow> show_nat \<lfloor>a\<rfloor> | _ \<Rightarrow> ''NaN''),
      pm_now = 40\<rparr>"

definition example_payment_env_no_rate :: payment_env where
  "example_payment_env_no_rate =
     example_payment_env\<lparr>pm_rate :=
       (\<lambda>from to. Inl (new_Error ''Failed to get exchange rate for usdt to usd''))\<rparr>"

section \<open>Properties of utils/signature.ts\<close>

lemma of_char_lower:
  "(of_char (lower_char c) :: nat) =
     (if 65 \<le> (of_char c :: nat) \<and> (of_char c :: nat) \<le> 90 then of_char c + 32 else of_char c)"
  by (simp add: lower_char_def Let_def)

lemma lower_char_idem: "lower_char (lower_char c) = lower_char c"
  by (simp add: lower_char_def Let_def)

lemma ci_eq_lower: "ci_eq c (lower_char c)"
  by (simp add: ci_eq_def lower_char_idem)

lemma toLowerCase_append: "toLowerCase (a @ b) = toLowerCase a @ toLowerCase b"
  by (simp add: toLowerCase_def)

lemma toLowerCase_idem: "toLowerCase (toLowerCase a) = toLowerCase a"
  by (simp add: toLowerCase_def lower_char_idem)

lemma line_term_lower: "is_line_terminator (lower_char c) = is_line_terminator c"
  by (auto simp: is_line_terminator_def of_char_lower)

lemma metachar_lower: "rx_metachar (lower_char c) = rx_metachar c"
  by (auto simp: rx_metachar_def of_char_lower)

lemma alnum_not_meta: "alnum_char c \<Longrightarrow> \<not> rx_metachar c"
  unfolding rx_metachar_def alnum_char_def Let_def by auto

lemma digit_not_meta: "digit_char c \<or> c = CHR ''.'' \<Longrightarrow> \<not> rx_metachar c"
  unfolding rx_metachar_def digit_char_def Let_def by auto


lemma rx_match_text:
  "rx_match (rx_text t @ p) (toLowerCase t @ s) = rx_match p s"
  by (induction t) (simp_all add: rx_text_def toLowerCase_def ci_eq_lower)

lemma dot_not_line_terminator: "\<not> is_line_terminator (lower_char (CHR ''.''))"
  by (simp add: is_line_terminator_def of_char_lower)

lemma rx_match_interp:
  "rx_match (map (\<lambda>c. if c = CHR ''.'' then RDot else RLit c) t @ p) (toLowerCase t @ s)
     = rx_match p s"
  by (induction t) (simp_all add: toLowerCase_def ci_eq_lower dot_not_line_terminator)

lemma rx_match_dotplus:
  "ts \<noteq> [] \<Longrightarrow> \<not> list_ex is_line_terminator ts \<Longrightarrow> rx_match p s
     \<Longrightarrow> rx_match (RDotPlus # p) (ts @ s)"
proof (induction ts)
  case Nil
  then show ?case by simp
next
  case (Cons c cs)
  show ?case
  proof (cases cs)
    case Nil
    with Cons.prems show ?thesis by simp
  next
    case (Cons d ds)
    with Cons.IH Cons.prems show ?thesis by simp
  qed
qed

lemma rx_test_of_match: "rx_match p s \<Longrightarrow> rx_test p s"
  by (cases s) simp_all

lemma no_line_terminator_lower:
  "list_ex is_line_terminator (toLowerCase ts) = list_ex is_line_terminator ts"
  by (induction ts) (simp_all add: toLowerCase_def line_term_lower)

lemma no_metachar_lower:
  "list_ex rx_metachar (toLowerCase a) = list_ex rx_metachar a"
  by (induction a) (simp_all add: toLowerCase_def metachar_lower)

lemma newline_lower: "toLowerCase [CHR 0x0A, CHR 0x0A] = [CHR 0x0A, CHR 0x0A]"
  by (simp add: toLowerCase_def lower_char_def)

lemma cashout_pattern_matches:
  assumes ts: "timestamp \<noteq> []" "\<not> list_ex is_line_terminator timestamp"
  shows "rx_match
           (cashout_pattern (map (\<lambda>c. if c = CHR ''.'' then RDot else RLit c) amount)
              (rx_text [CHR 0x0A, CHR 0x0A])
              (map (\<lambda>c. if c = CHR ''.'' then RDot else RLit c) (toLowerCase address)))
           (toLowerCase (createCashoutMessage address amount timestamp))"
proof -
  let ?addr = "map (\<lambda>c. if c = CHR ''.'' then RDot else RLit c) (toLowerCase address)"
  have tail: "rx_match (rx_text ''Address: '' @ ?addr)
                (toLowerCase ''Address: '' @ toLowerCase address)"
    using rx_match_interp [of "toLowerCase address" "[]" "[]"]
    by (simp add: rx_match_text toLowerCase_idem)
  have sep: "rx_match (rx_text [CHR 0x0A, CHR 0x0A] @ rx_text ''Address: '' @ ?addr)
                (toLowerCase [CHR 0x0A, CHR 0x0A] @ toLowerCase ''Address: '' @ toLowerCase address)"
    using tail by (simp only: rx_match_text)
  have ts': "toLowerCase timestamp \<noteq> []" "\<not> list_ex is_line_terminator (toLowerCase timestamp)"
    using ts by (simp add: toLowerCase_def, simp add: no_line_terminator_lower)
  have plus: "rx_match (RDotPlus # rx_text [CHR 0x0A, CHR 0x0A] @ rx_text ''Address: '' @ ?addr)
                (toLowerCase timestamp @ toLowerCase [CHR 0x0A, CHR 0x0A]
                   @ toLowerCase ''Address: '' @ toLowerCase address)"
    using rx_match_dotplus [OF ts' sep] .
  show ?thesis
    unfolding cashout_pattern_def createCashoutMessage_def toLowerCase_append append_assoc
    using plus by (simp only: rx_match_text rx_match_interp append_Cons append_Nil)
qed

text \<open>
  Claim C10. A message built by \<open>createCashoutMessage\<close> is accepted by
  \<open>validateCashoutMessage\<close> for the same amount and for any spelling of the same address
  that differs only in letter case, provided the address consists of letters and digits (as
  every valid wallet address does), the amount is a plain decimal numeral and the timestamp
  is non-empty and holds no line terminator.
\<close>

theorem cashout_message_roundtrip:
  assumes "list_all alnum_char address"
    and "toLowerCase address' = toLowerCase address"
    and "list_all (\<lambda>c. digit_char c \<or> c = CHR ''.'') amount"
    and "timestamp \<noteq> []" and "\<not> list_ex is_line_terminator timestamp"
  shows "validateCashoutMessage (createCashoutMessage address amount timestamp) address' amount
           = Some True"
proof -
  have a: "\<not> list_ex rx_metachar (toLowerCase address)"
    unfolding no_metachar_lower
    using assms(1) by (auto simp: list_ex_iff list_all_iff dest: alnum_not_meta)
  have b: "\<not> list_ex rx_metachar amount"
    using assms(3) digit_not_meta by (fastforce simp: list_ex_iff list_all_iff)
  show ?thesis
    using cashout_pattern_matches [OF assms(4,5), of amount address] a b assms(2)
    by (simp add: validateCashoutMessage_def rx_interp_def rx_test_of_match rx_text_def)
qed

theorem cashout_message_roundtrip_witness:
  "validateCashoutMessage
     (createCashoutMessage ''0x52908400098527886E0F7030069857D2E4169EE7'' ''12.5'' ''2024-05-01T10:00:00Z'')
     ''0x52908400098527886e0f7030069857d2e4169ee7'' ''12.5'' = Some True"
  by (rule cashout_message_roundtrip) code_simp+


section \<open>Properties of the rounding to a double\<close>

lemma two_powi_pos [simp]: "0 < (2::rat) powi k"
  by (simp add: power_int_def)

lemma two_powi_mono: "j \<le> k \<Longrightarrow> (2::rat) powi j \<le> 2 powi k"
  by (rule power_int_increasing) simp_all

lemma two_powi_less_exp: "(2::rat) powi j < 2 powi k \<Longrightarrow> j < k"
  using two_powi_mono [of k j] by (cases "j < k") auto

lemma ilog2_bounds:
  assumes "0 < a"
  shows "2 powi ilog2 a \<le> a" and "a < 2 powi (ilog2 a + 1)"
proof -
  obtain n d where nd: "quotient_of a = (n, d)" by (cases "quotient_of a")
  have d: "0 < d" using nd by (rule quotient_of_denom_pos)
  have a: "a = of_int n / of_int d" using nd by (rule quotient_of_div)
  have n: "0 < n" using assms d by (simp add: a zero_less_divide_iff)
  define k where "k = bitlen n - bitlen d"
  have bn: "1 \<le> bitlen n" "1 \<le> bitlen d"
    using n d by (simp_all add: bitlen_alt_def)
  have n_lo: "(2::rat) powi (bitlen n - 1) \<le> of_int n"
  proof -
    have "(2::int) ^ nat (bitlen n - 1) \<le> n" using bitlen_bounds [OF n] by simp
    then have "(of_int (2 ^ nat (bitlen n - 1)) :: rat) \<le> of_int n" by (simp only: of_int_le_iff)
    then show ?thesis using bn by (simp add: power_int_def)
  qed
  have n_hi: "of_int n < (2::rat) powi bitlen n"
  proof -
    have "n < (2::int) ^ nat (bitlen n)" using bitlen_bounds [OF n] by simp
    then have "(of_int n :: rat) < of_int (2 ^ nat (bitlen n))" by (simp only: of_int_less_iff)
    then show ?thesis using bn by (simp add: power_int_def)
  qed
  have d_lo: "(2::rat) powi (bitlen d - 1) \<le> of_int d"
  proof -
    have "(2::int) ^ nat (bitlen d - 1) \<le> d" using bitlen_bounds [OF d] by simp
    then have "(of_int (2 ^ nat (bitlen d - 1)) :: rat) \<le> of_int d" by (simp only: of_int_le_iff)
    then show ?thesis using bn by (simp add: power_int_def)
  qed
  have d_hi: "of_int d < (2::rat) powi bitlen d"
  proof -
    have "d < (2::int) ^ nat (bitlen d)" using bitlen_bounds [OF d] by simp
    then have "(of_int d :: rat) < of_int (2 ^ nat (bitlen d))" by (simp only: of_int_less_iff)
    then show ?thesis using bn by (simp add: power_int_def)
  qed
  have dpos: "(0::rat) < of_int d" using d by simp
  have lo: "2 powi (k - 1) < a"
  proof -
    have "2 powi (k - 1) * of_int d < (2::rat) powi (k - 1) * 2 powi bitlen d"
      using d_hi by simp
    also have "\<dots> = 2 powi (bitlen n - 1)"
      by (simp add: k_def power_int_add [symmetric])
    also have "\<dots> \<le> of_int n" by (rule n_lo)
    finally show ?thesis using dpos by (simp add: a pos_less_divide_eq)
  qed
  have hi: "a < 2 powi (k + 1)"
  proof -
    have "of_int n < (2::rat) powi bitlen n" by (rule n_hi)
    also have "\<dots> = 2 powi (k + 1) * 2 powi (bitlen d - 1)"
      by (simp add: k_def power_int_add [symmetric])
    also have "\<dots> \<le> 2 powi (k + 1) * of_int d"
      using d_lo by simp
    finally show ?thesis using dpos by (simp add: a pos_divide_less_eq)
  qed
  have il: "ilog2 a = (if 2 powi k \<le> a then k else k - 1)"
    by (simp add: ilog2_def nd k_def Let_def)
  show "2 powi ilog2 a \<le> a" using lo by (simp add: il)
  show "a < 2 powi (ilog2 a + 1)" using hi by (simp add: il)
qed

lemma ilog2_less:
  assumes "0 < a" "a < 2 powi k"
  shows "ilog2 a < k"
proof -
  have "2 powi ilog2 a < (2::rat) powi k"
    using ilog2_bounds(1) [OF assms(1)] assms(2) by simp
  then show ?thesis by (rule two_powi_less_exp)
qed

lemma ilog2_ge:
  assumes "0 < a" "2 powi k \<le> a"
  shows "k \<le> ilog2 a"
proof -
  have "(2::rat) powi k < 2 powi (ilog2 a + 1)"
    using ilog2_bounds(2) [OF assms(1)] assms(2) by simp
  then have "k < ilog2 a + 1" by (rule two_powi_less_exp)
  then show ?thesis by simp
qed

lemma ilog2_eq:
  assumes "2 powi k \<le> a" "a < 2 powi (k + 1)"
  shows "ilog2 a = k"
proof -
  have pos: "0 < a" by (rule less_le_trans [OF two_powi_pos assms(1)])
  from ilog2_less [OF pos assms(2)] ilog2_ge [OF pos assms(1)] show ?thesis by simp
qed

lemma round_half_even_of_int [simp]: "round_half_even (of_int z) = z"
  by (simp add: round_half_even_def)

lemma round_half_even_le:
  assumes "q \<le> of_int z"
  shows "round_half_even q \<le> z"
proof (cases "q = of_int \<lfloor>q\<rfloor>")
  case True
  then have "round_half_even q = \<lfloor>q\<rfloor>" by (metis round_half_even_of_int)
  then show ?thesis using assms by (simp add: floor_le_iff)
next
  case False
  then have "of_int \<lfloor>q\<rfloor> < q" by (metis less_eq_rat_def of_int_floor_le order_less_le)
  then have "\<lfloor>q\<rfloor> < z" using assms by (metis floor_less_iff less_le_trans of_int_less_iff order.strict_trans1)
  moreover have "round_half_even q \<le> \<lfloor>q\<rfloor> + 1" by (simp add: round_half_even_def Let_def)
  ultimately show ?thesis by simp
qed

lemma round_half_even_ge:
  assumes "of_int z \<le> q"
  shows "z \<le> round_half_even q"
proof -
  have "z \<le> \<lfloor>q\<rfloor>" using assms by (simp add: le_floor_iff)
  moreover have "\<lfloor>q\<rfloor> \<le> round_half_even q" by (simp add: round_half_even_def Let_def)
  ultimately show ?thesis by simp
qed


lemma double_grid:
  assumes m: "0 < m" "m \<le> 2 ^ 53" and e: "- 1074 \<le> e"
  defines "v \<equiv> (of_int m :: rat) * 2 powi e"
  defines "e' \<equiv> max (ilog2 v - 52) (- 1074)"
  shows "of_int (round_half_even (v / 2 powi e')) * 2 powi e' = v"
proof (cases "m = 2 ^ 53")
  case True
  have v53: "v = 2 powi (e + 53)"
    by (simp add: v_def True power_int_add)
  have "ilog2 v = e + 53"
    by (rule ilog2_eq) (simp_all add: v53 power_int_add)
  then have e': "e' = e + 1" using e by (simp add: e'_def)
  have "v / 2 powi e' = 2 powi (e + 53 - (e + 1))"
    unfolding v53 e' by (rule power_int_diff [symmetric]) simp
  also have "\<dots> = of_int (2 ^ 52)" by simp
  finally have "round_half_even (v / 2 powi e') = 2 ^ 52"
    by (simp only: round_half_even_of_int)
  then show ?thesis
    by (simp add: v53 e' power_int_add)
next
  case False
  then have m53: "m < 2 ^ 53" using m(2) by simp
  have vpos: "0 < v" using m(1) by (simp add: v_def)
  have "(of_int m :: rat) < of_int (2 ^ 53)" using m53 by (simp only: of_int_less_iff)
  then have "v < 2 ^ 53 * 2 powi e" by (simp add: v_def)
  also have "\<dots> = 2 powi (e + 53)" by (simp add: power_int_add)
  finally have "ilog2 v < e + 53" by (rule ilog2_less [OF vpos])
  then have le: "e' \<le> e" using e by (simp add: e'_def)
  have "v / 2 powi e' = of_int m * 2 powi (e - e')"
    by (simp add: v_def power_int_diff)
  also have nat_pow: "2 powi (e - e') = (2::rat) ^ nat (e - e')"
    using le by (simp add: power_int_def)
  finally have "v / 2 powi e' = of_int (m * 2 ^ nat (e - e'))" by simp
  then have "round_half_even (v / 2 powi e') = m * 2 ^ nat (e - e')"
    by (simp only: round_half_even_of_int)
  moreover have "(2::rat) ^ nat (e - e') * 2 powi e' = 2 powi e"
    unfolding nat_pow [symmetric] using power_int_add [of "2::rat" "e - e'" e'] by simp
  ultimately show ?thesis
    by (simp add: v_def mult.assoc)
qed

text \<open>A rounded value is a double: rounding it again changes nothing.\<close>

lemma to_double_zero [simp]: "to_double 0 = Fin 0"
  by (simp add: to_double_def)

lemma to_double_one [simp]: "to_double 1 = Fin 1"
  by code_simp

lemma to_double_idem:
  assumes "to_double q = Fin w"
  shows "to_double w = Fin w"
proof (cases "q = 0")
  case True
  then show ?thesis using assms by (simp add: to_double_def)
next
  case False
  define a where "a = \<bar>q\<bar>"
  define e where "e = max (ilog2 a - 52) (- 1074)"
  define m where "m = round_half_even (a / 2 powi e)"
  define v where "v = (of_int m :: rat) * 2 powi e"
  have apos: "0 < a" using False by (simp add: a_def)
  have unf: "to_double q = (if 1024 \<le> ilog2 v then (if q < 0 then NegInf else PosInf)
                            else Fin (if q < 0 then - v else v))"
    using False by (simp add: to_double_def Let_def a_def e_def m_def v_def)
  from assms have fin: "\<not> 1024 \<le> ilog2 v" and w: "w = (if q < 0 then - v else v)"
    by (auto simp: unf split: if_splits)
  have e: "- 1074 \<le> e" by (simp add: e_def)
  have m0: "0 \<le> m"
    unfolding m_def by (rule round_half_even_ge) (use apos in simp)
  have "a < 2 powi (ilog2 a + 1)" by (rule ilog2_bounds(2) [OF apos])
  also have "\<dots> \<le> 2 powi (e + 53)" by (rule two_powi_mono) (simp add: e_def)
  also have "\<dots> = of_int (2 ^ 53) * 2 powi e" by (simp add: power_int_add)
  finally have "a / 2 powi e \<le> of_int (2 ^ 53)" by (simp add: pos_divide_le_eq)
  then have m53: "m \<le> 2 ^ 53" unfolding m_def by (rule round_half_even_le)
  show ?thesis
  proof (cases "m = 0")
    case True
    then show ?thesis by (simp add: w v_def to_double_def)
  next
    case False
    then have mpos: "0 < m" using m0 by simp
    then have vpos: "0 < v" by (simp add: v_def)
    have grid: "of_int (round_half_even (v / 2 powi max (ilog2 v - 52) (- 1074)))
                  * 2 powi max (ilog2 v - 52) (- 1074) = v"
      unfolding v_def by (rule double_grid [OF mpos m53 e])
    have absw: "\<bar>w\<bar> = v" using vpos by (simp add: w)
    have sgn: "(w < 0) = (q < 0)" using vpos by (simp add: w)
    have wnz: "w \<noteq> 0" using vpos by (auto simp: w)
    have "to_double w = Fin (if w < 0 then - v else v)"
      unfolding to_double_def [of w] Let_def absw grid using fin wnz by simp
    then show ?thesis using vpos by (simp add: sgn w)
  qed
qed

text \<open>
  The literal \<open>0.01\<close> is the double \<open>5764607523034235 / 2^59\<close>, a little above 1/100. A
  non-negative value rounds to a double above it exactly from \<open>tolerance_threshold\<close> on,
  the midpoint between that double and the next one (the significand is odd, so the
  midpoint itself rounds upwards).
\<close>

lemma tolerance_value: "to_double (1 / 100) = Fin (5764607523034235 / 2 ^ 59)"
  by code_simp

lemma ilog2_zero: "ilog2 0 = - 2"
  by code_simp

lemma to_double_pos:
  assumes "0 < z"
  shows "to_double z =
           (if 1024 \<le> ilog2 (of_int (round_half_even (z / 2 powi max (ilog2 z - 52) (- 1074)))
                                * 2 powi max (ilog2 z - 52) (- 1074))
            then PosInf
            else Fin (of_int (round_half_even (z / 2 powi max (ilog2 z - 52) (- 1074)))
                        * 2 powi max (ilog2 z - 52) (- 1074)))"
  using assms by (simp add: to_double_def Let_def)

lemma round_half_even_down:
  assumes "of_int k \<le> q" "q < of_int k + 1 / 2"
  shows "round_half_even q = k"
proof -
  have "\<lfloor>q\<rfloor> = k" using assms by (simp add: floor_unique)
  then show ?thesis using assms by (simp add: round_half_even_def Let_def)
qed

lemma round_half_even_up:
  assumes "of_int k + 1 / 2 \<le> q" "odd k"
  shows "k + 1 \<le> round_half_even q"
proof (cases "q < of_int k + 1")
  case True
  have "\<lfloor>q\<rfloor> = k" using assms(1) True by (simp add: floor_unique)
  then show ?thesis using assms by (simp add: round_half_even_def Let_def)
next
  case False
  then have "of_int (k + 1) \<le> q" by simp
  then show ?thesis by (rule round_half_even_ge)
qed

lemma below_threshold:
  assumes "0 \<le> z" "z < tolerance_threshold"
  shows "\<not> js_lt (to_double (1 / 100)) (to_double z)"
proof (cases "z = 0")
  case True
  then show ?thesis by (simp add: tolerance_value)
next
  case False
  then have zpos: "0 < z" using assms(1) by simp
  define e where "e = max (ilog2 z - 52) (- 1074)"
  define m where "m = round_half_even (z / 2 powi e)"
  define v where "v = (of_int m :: rat) * 2 powi e"
  let ?c = "5764607523034235 / 2 ^ 59 :: rat"
  have "z < 2 powi (- 6)"
    using assms(2) by (simp add: tolerance_threshold_def power_int_minus)
  then have L: "ilog2 z < - 6" by (rule ilog2_less [OF zpos])
  then have e59: "e \<le> - 59" by (simp add: e_def)
  have vc: "v \<le> ?c"
  proof (cases "z \<le> ?c")
    case True
    have pw: "2 powi (- 59 - e) = (2::rat) ^ nat (- 59 - e)"
      using e59 by (simp add: power_int_def)
    have split: "(2::rat) powi (- 59) = 2 powi (- 59 - e) * 2 powi e"
      using power_int_add [of "2::rat" "- 59 - e" e] by simp
    have "z / 2 powi e \<le> ?c / 2 powi e"
      by (rule divide_right_mono [OF True]) simp
    also have "?c = 5764607523034235 * 2 powi (- 59)"
      by (simp add: power_int_minus field_simps)
    also have "\<dots> / 2 powi e = of_int (5764607523034235 * 2 ^ nat (- 59 - e))"
      unfolding split pw by simp
    finally have "m \<le> 5764607523034235 * 2 ^ nat (- 59 - e)"
      unfolding m_def by (rule round_half_even_le)
    then have "(of_int m :: rat) \<le> of_int (5764607523034235 * 2 ^ nat (- 59 - e))"
      by (simp only: of_int_le_iff)
    then have "v \<le> of_int (5764607523034235 * 2 ^ nat (- 59 - e)) * 2 powi e"
      unfolding v_def by (simp add: mult_right_mono)
    also have "\<dots> = 5764607523034235 * (2 powi (- 59 - e) * 2 powi e)"
      unfolding pw by simp
    also have "\<dots> = ?c"
      unfolding split [symmetric] by (simp add: power_int_minus field_simps)
    finally show ?thesis .
  next
    case False
    then have "2 powi (- 7) \<le> z" by (simp add: power_int_minus)
    then have "- 7 \<le> ilog2 z" by (rule ilog2_ge [OF zpos])
    with L have e: "e = - 59" by (simp add: e_def)
    have "m = 5764607523034235"
      unfolding m_def e
      by (rule round_half_even_down)
        (use False assms(2) in \<open>simp_all add: tolerance_threshold_def power_int_minus field_simps\<close>)
    then show ?thesis by (simp add: v_def e power_int_minus field_simps)
  qed
  have m0: "0 \<le> m"
    unfolding m_def by (rule round_half_even_ge) (use zpos in simp)
  have small: "\<not> 1024 \<le> ilog2 v"
  proof (cases "m = 0")
    case True
    then show ?thesis by (simp add: v_def ilog2_zero)
  next
    case False
    then have vpos: "0 < v" using m0 by (simp add: v_def)
    have "v < 2 powi 0" using vc by simp
    from ilog2_less [OF vpos this] show ?thesis by simp
  qed
  have "to_double z = Fin v"
    using small unfolding to_double_pos [OF zpos] v_def m_def e_def by simp
  then show ?thesis using vc by (simp add: tolerance_value)
qed

lemma above_threshold:
  assumes "tolerance_threshold \<le> z"
  shows "js_lt (to_double (1 / 100)) (to_double z)"
proof -
  have zpos: "0 < z" using assms by (simp add: tolerance_threshold_def)
  define e where "e = max (ilog2 z - 52) (- 1074)"
  define m where "m = round_half_even (z / 2 powi e)"
  define v where "v = (of_int m :: rat) * 2 powi e"
  let ?c = "5764607523034235 / 2 ^ 59 :: rat"
  have "2 powi (- 7) \<le> z"
    using assms by (simp add: tolerance_threshold_def power_int_minus)
  then have L: "- 7 \<le> ilog2 z" by (rule ilog2_ge [OF zpos])
  then have e: "e = ilog2 z - 52" by (simp add: e_def)
  have cv: "?c < v"
  proof (cases "ilog2 z = - 7")
    case True
    then have e59: "e = - 59" by (simp add: e)
    have "5764607523034235 + 1 \<le> m"
      unfolding m_def e59
      by (rule round_half_even_up)
        (use assms in \<open>simp_all add: tolerance_threshold_def power_int_minus field_simps\<close>)
    then have "(of_int (5764607523034235 + 1) :: rat) \<le> of_int m"
      by (simp only: of_int_le_iff)
    then show ?thesis by (simp add: v_def e59 power_int_minus field_simps)
  next
    case False
    with L have L6: "- 6 \<le> ilog2 z" by simp
    have "2 powi ilog2 z \<le> z" by (rule ilog2_bounds(1) [OF zpos])
    moreover have "(2::rat) powi ilog2 z = of_int (2 ^ 52) * 2 powi e"
      using power_int_add [of "2::rat" 52 e] by (simp add: e)
    ultimately have "of_int (2 ^ 52) \<le> z / 2 powi e"
      by (simp add: pos_le_divide_eq)
    then have "2 ^ 52 \<le> m" unfolding m_def by (rule round_half_even_ge)
    then have "(of_int (2 ^ 52) :: rat) \<le> of_int m" by (simp only: of_int_le_iff)
    then have "of_int (2 ^ 52) * 2 powi e \<le> v"
      unfolding v_def by (simp add: mult_right_mono)
    moreover have "(2::rat) powi (- 6) \<le> 2 powi ilog2 z"
      using L6 by (rule two_powi_mono)
    moreover have "?c < 2 powi (- 6)" by (simp add: power_int_minus)
    ultimately show ?thesis
      using \<open>(2::rat) powi ilog2 z = of_int (2 ^ 52) * 2 powi e\<close> by simp
  qed
  have "to_double z = PosInf \<or> to_double z = Fin v"
    unfolding to_double_pos [OF zpos] v_def m_def e_def by simp
  then show ?thesis using cv by (auto simp: tolerance_value)
qed

lemma to_double_minus:
  "to_double (- q) = (case to_double q of Fin a \<Rightarrow> Fin (- a) | PosInf \<Rightarrow> NegInf
                        | NegInf \<Rightarrow> PosInf | NaN \<Rightarrow> NaN)"
  by (simp add: to_double_def Let_def)

section \<open>Properties of the custody transfer with retry\<close>

lemma attempt_transfer_error_silent:
  "attempt_transfer parseUnits rpc to amount = (Inl e, evs) \<Longrightarrow> evs = []"
  by (auto simp: attempt_transfer_def split: sum.splits if_splits)

lemma attempt_transfer_ok_broadcast:
  "attempt_transfer parseUnits rpc to amount = (Inr tx, evs) \<Longrightarrow>
     \<exists>amountWei. evs = [Broadcast to amountWei tx]"
  by (auto simp: attempt_transfer_def split: sum.splits if_splits)

lemma transfer_loop_attempts_bounded:
  "length (filter is_attempt (snd (transfer_loop parseUnits chain to amount maxRetries attempt lastError)))
     \<le> Suc maxRetries - attempt"
proof (induction parseUnits chain to amount maxRetries attempt lastError rule: transfer_loop.induct)
  case (1 parseUnits chain to amount maxRetries attempt lastError)
  show ?case
  proof (cases "attempt \<le> maxRetries")
    case False
    then show ?thesis by (subst transfer_loop.simps) simp
  next
    case True
    obtain r evs where at: "attempt_transfer parseUnits (chain attempt) to amount = (r, evs)"
      by (cases "attempt_transfer parseUnits (chain attempt) to amount") auto
    show ?thesis
    proof (cases r)
      case (Inr tx)
      with at attempt_transfer_ok_broadcast [of parseUnits "chain attempt" to amount tx evs]
      show ?thesis using True by (subst transfer_loop.simps) auto
    next
      case (Inl error)
      with at have evs: "evs = []" using attempt_transfer_error_silent by blast
      show ?thesis
      proof (cases "isRetryableError error \<and> attempt < maxRetries")
        case False
        with True at Inl evs show ?thesis by (subst transfer_loop.simps) auto
      next
        case retry: True
        have ih: "length (filter is_attempt (snd (transfer_loop parseUnits chain to amount maxRetries
                     (attempt + 1) (Some error)))) \<le> Suc maxRetries - (attempt + 1)"
          using "1.IH" [OF True at [symmetric] _ retry] Inl by simp
        show ?thesis
          using True at Inl evs retry ih
          by (subst transfer_loop.simps) (auto simp: Let_def split: prod.splits)
      qed
    qed
  qed
qed


lemma transfer_at_most_three_attempts:
  "length (filter is_attempt
     (snd (transferUSDTFromOfframp parseUnits wallet chain to amount default_maxRetries))) \<le> 3"
proof (cases wallet)
  case None
  then show ?thesis by (simp add: transferUSDTFromOfframp_def)
next
  case (Some w)
  then show ?thesis
    using transfer_loop_attempts_bounded [of parseUnits chain to amount default_maxRetries 1 None]
    by (simp add: transferUSDTFromOfframp_def default_maxRetries_def del: transfer_loop.simps)
qed

lemma transfer_permanent_fails_fast:
  assumes "attempt_transfer parseUnits (chain 1) to amount = (Inl error, evs)"
    and "\<not> isRetryableError error" and "1 \<le> maxRetries"
  shows "transferUSDTFromOfframp parseUnits (Some wallet) chain to amount maxRetries
           = (Inl (new_Error (''Failed to transfer USDT from offramp wallet: '' @ message error)),
              [Attempt 1])"
  using assms attempt_transfer_error_silent [OF assms(1)]
  by (simp add: transferUSDTFromOfframp_def)

lemma transfer_last_error_propagated:
  assumes "attempt_transfer parseUnits (chain maxRetries) to amount = (Inl error, evs)"
    and "1 \<le> maxRetries"
  shows "fst (transfer_loop parseUnits chain to amount maxRetries maxRetries lastError)
           = Inl (new_Error (''Failed to transfer USDT from offramp wallet: '' @ message error))"
  using assms by (subst transfer_loop.simps) simp

lemma transfer_retry_backoff:
  assumes "attempt_transfer parseUnits (chain attempt) to amount = (Inl error, evs)"
    and "isRetryableError error" and "attempt < maxRetries"
  shows "transfer_loop parseUnits chain to amount maxRetries attempt lastError
           = (fst (transfer_loop parseUnits chain to amount maxRetries (Suc attempt) (Some error)),
              Attempt attempt # Sleep (attempt * 2 * 1000)
                # snd (transfer_loop parseUnits chain to amount maxRetries (Suc attempt) (Some error)))"
  using assms attempt_transfer_error_silent [OF assms(1)]
  by (subst transfer_loop.simps) (simp add: Let_def split: prod.splits)

text \<open>
  Claim C7. The loop makes at most \<open>maxRetries\<close> attempts (three by default), pauses
  \<open>2000 * attempt\<close> milliseconds before the next attempt, stops at the first error that
  \<open>isRetryableError\<close> rejects and hands on the last error's message (the lemmas
  above). The claim that an insufficient custody balance is never retried fails: the
  error's message quotes the required and the available amount, and \<open>isRetryableError\<close>
  looks for the digits 502 and 503 anywhere in the message. With 4.502 tokens available
  and 5 requested the loop runs all three attempts and pauses twice.
\<close>

theorem insufficient_balance_is_retried:
  "transferUSDTFromOfframp (\<lambda>amount decimals. Inr 5000000000000000000) (Some ''0xCustody'')
     (\<lambda>attempt. \<lparr>decimals_res = Inr 18, balance_res = Inr 4502000000000000000,
                  transfer_res = Inr ''0xTx''\<rparr>)
     ''0xRecipient'' ''5.000000'' default_maxRetries
   = (Inl (new_Error (''Failed to transfer USDT from offramp wallet: ''
             @ ''Insufficient balance in offramp wallet. Required: 5.0 USDT, Available: 4.502 USDT'')),
      [Attempt 1, Sleep 2000, Attempt 2, Sleep 4000, Attempt 3])"
  by code_simp


section \<open>Properties of the webhook controller\<close>

lemma find_map_preserving:
  "(\<And>x. P (f x) = P x) \<Longrightarrow> find P (map f xs) = map_option f (find P xs)"
  by (induction xs) simp_all

lemma payment_intent_id_apply [simp]:
  "payment_intent_id (apply_payment_updates now u p) = payment_intent_id p"
  by (simp add: apply_payment_updates_def Let_def split: option.splits)

lemma getPayment_updatePayment:
  "getPaymentByPaymentIntentId i (updatePayment now pid u tbl)
     = (if u = no_payment_updates then getPaymentByPaymentIntentId i tbl
        else map_option (\<lambda>p. if p_id p = pid then apply_payment_updates now u p else p)
               (getPaymentByPaymentIntentId i tbl))"
  by (simp add: getPaymentByPaymentIntentId_def updatePayment_def find_map_preserving)

lemma transfer_loop_broadcasts:
  "transfer_loop parseUnits chain to amount maxRetries attempt lastError = (r, tr) \<Longrightarrow>
     length (filter is_broadcast tr) = (case r of Inl e \<Rightarrow> 0 | Inr tx \<Rightarrow> 1)"
proof (induction parseUnits chain to amount maxRetries attempt lastError arbitrary: r tr
         rule: transfer_loop.induct)
  case (1 parseUnits chain to amount maxRetries attempt lastError)
  show ?case
  proof (cases "attempt \<le> maxRetries")
    case False
    with "1.prems" show ?thesis by (subst (asm) transfer_loop.simps) auto
  next
    case True
    obtain r0 evs where at: "attempt_transfer parseUnits (chain attempt) to amount = (r0, evs)"
      by (cases "attempt_transfer parseUnits (chain attempt) to amount") auto
    show ?thesis
    proof (cases r0)
      case (Inr tx)
      with at attempt_transfer_ok_broadcast [of parseUnits "chain attempt" to amount tx evs]
        "1.prems" True
      show ?thesis by (subst (asm) transfer_loop.simps) auto
    next
      case (Inl error)
      with at have evs: "evs = []" using attempt_transfer_error_silent by blast
      show ?thesis
      proof (cases "isRetryableError error \<and> attempt < maxRetries")
        case False
        with True at Inl evs "1.prems" show ?thesis
          by (subst (asm) transfer_loop.simps) auto
      next
        case retry: True
        obtain r1 tr1 where next_run:
          "transfer_loop parseUnits chain to amount maxRetries (attempt + 1) (Some error) = (r1, tr1)"
          by (cases "transfer_loop parseUnits chain to amount maxRetries (attempt + 1) (Some error)") auto
        have ih: "length (filter is_broadcast tr1) = (case r1 of Inl e \<Rightarrow> 0 | Inr tx \<Rightarrow> 1)"
          using "1.IH" [OF True at [symmetric] Inl retry refl next_run] .
        have "r = r1" "tr = Attempt attempt # Sleep (attempt * 2 * 1000) # tr1"
          using "1.prems" True at Inl evs retry next_run
          by (subst (asm) transfer_loop.simps; simp add: Let_def)+
        with ih show ?thesis by simp
      qed
    qed
  qed
qed

lemma transferUSDTFromOfframp_broadcasts:
  "transferUSDTFromOfframp parseUnits wallet chain to amount maxRetries = (r, tr) \<Longrightarrow>
     length (filter is_broadcast tr) = (case r of Inl e \<Rightarrow> 0 | Inr tx \<Rightarrow> 1)"
  by (cases wallet) (auto simp: transferUSDTFromOfframp_def simp del: transfer_loop.simps
        dest: transfer_loop_broadcasts)


lemma filter_transfer_effect_Chain:
  "length (filter (is_transfer_effect \<circ> Chain) evs) = length (filter is_broadcast evs)"
  by (induction evs) simp_all

lemma settle_payment_success:
  assumes "settle_payment env intent p w = (Inr u, w1)"
  shows "\<exists>evs (receipt :: tx_receipt).
           token_transfers w1 = token_transfers w + 1 \<and>
           w1 = (log_effects (map Chain evs) w)\<lparr>payments :=
                   updatePayment (we_now env) (p_id p)
                     (no_payment_updates\<lparr>u_tx_hash := Some (rc_hash receipt),
                        u_block_number := Some (rc_blockNumber receipt),
                        u_status := Some Completed,
                        u_completed_at := Some (we_now env)\<rparr>)
                     (payments w)\<rparr>"
proof -
  let ?wallet = "or_else (pi_metadata_wallet_address intent) (Some (wallet_address p))"
  obtain tx evs where run:
    "transferUSDTFromOfframp (we_parseUnits env) (we_offrampWallet env) (we_chain env)
       (the ?wallet) (amount_usdt p) default_maxRetries = (tx, evs)"
    by (cases "transferUSDTFromOfframp (we_parseUnits env) (we_offrampWallet env) (we_chain env)
       (the ?wallet) (amount_usdt p) default_maxRetries") auto
  from assms run have "\<exists>txHash (receipt :: tx_receipt). tx = Inr txHash \<and>
      waitForTransaction (we_receipt_of env txHash) = Inr (Some receipt) \<and>
      w1 = (log_effects (map Chain evs) w)\<lparr>payments :=
                   updatePayment (we_now env) (p_id p)
                     (no_payment_updates\<lparr>u_tx_hash := Some (rc_hash receipt),
                        u_block_number := Some (rc_blockNumber receipt),
                        u_status := Some Completed,
                        u_completed_at := Some (we_now env)\<rparr>)
                     (payments (log_effects (map Chain evs) w))\<rparr>"
    by (auto simp: settle_payment_def Let_def split: if_splits sum.splits option.splits)
  then obtain txHash and receipt :: tx_receipt where
    tx: "tx = Inr txHash" and
    w1: "w1 = (log_effects (map Chain evs) w)\<lparr>payments :=
                   updatePayment (we_now env) (p_id p)
                     (no_payment_updates\<lparr>u_tx_hash := Some (rc_hash receipt),
                        u_block_number := Some (rc_blockNumber receipt),
                        u_status := Some Completed,
                        u_completed_at := Some (we_now env)\<rparr>)
                     (payments (log_effects (map Chain evs) w))\<rparr>"
    by blast
  have "length (filter is_broadcast evs) = 1"
    using transferUSDTFromOfframp_broadcasts [OF run] tx by simp
  then have "token_transfers w1 = token_transfers w + 1"
    by (simp add: w1 token_transfers_def log_effects_def filter_map filter_transfer_effect_Chain)
  with w1 show ?thesis by (auto simp: log_effects_def)
qed

lemma completed_update_not_empty:
  "no_payment_updates\<lparr>u_tx_hash := Some h, u_block_number := Some b,
      u_status := Some Completed, u_completed_at := Some t\<rparr> \<noteq> no_payment_updates"
  by (simp add: no_payment_updates_def)

lemma processing_update_not_empty:
  "no_payment_updates\<lparr>u_status := Some Processing\<rparr> \<noteq> no_payment_updates"
  by (simp add: no_payment_updates_def)

lemma settled_delivery_acknowledged_unchanged:
  assumes "truthy (stripe_signature req)"
    and "verifyWebhookSignature env (wr_body req) (the (stripe_signature req)) (we_webhookSecret env)
           = Inr (PaymentIntentSucceeded intent)"
    and "getPaymentByPaymentIntentId (pi_id intent) (payments w) = Some p"
    and "p_status p = Completed \<or> truthy (tx_hash p)"
  shows "handleStripeWebhook env req w = ((200, Received None), w)"
  using assms by (auto simp: handleStripeWebhook_def handlePaymentIntentSucceeded_def)

text \<open>
  Claim C1. For a Payment that is already \<open>completed\<close>, or that already carries a
  transaction hash, handling \<open>payment_intent.succeeded\<close> again returns at once: no
  transfer, no change of the store. Hence when a first delivery has settled a Payment, a
  second delivery of the same event changes nothing: in total exactly one token transfer
  was accepted by the chain, and the Payment is \<open>completed\<close> with its hash recorded. (A
  transaction hash is a non-empty string, so a recorded hash is truthy.)
\<close>

theorem charge_confirmed_idempotent:
  assumes found: "getPaymentByPaymentIntentId (pi_id intent) (payments w) = Some p"
  shows "(p_status p = Completed \<or> (\<exists>h. tx_hash p = Some h \<and> h \<noteq> []) \<longrightarrow>
            handlePaymentIntentSucceeded env intent w = (Inr (), w)) \<and>
         (\<not> (p_status p = Completed \<or> truthy (tx_hash p)) \<and>
            handlePaymentIntentSucceeded env intent w = (Inr (), w1) \<longrightarrow>
            handlePaymentIntentSucceeded env2 intent w1 = (Inr (), w1) \<and>
            token_transfers w1 = token_transfers w + 1 \<and>
            (\<exists>p1 h. getPaymentByPaymentIntentId (pi_id intent) (payments w1) = Some p1 \<and>
                    p_status p1 = Completed \<and> tx_hash p1 = Some h))"
proof (intro conjI impI)
  assume "p_status p = Completed \<or> (\<exists>h. tx_hash p = Some h \<and> h \<noteq> [])"
  then have "p_status p = Completed \<or> truthy (tx_hash p)" by auto
  with found show "handlePaymentIntentSucceeded env intent w = (Inr (), w)"
    by (simp add: handlePaymentIntentSucceeded_def)
next
  assume a: "\<not> (p_status p = Completed \<or> truthy (tx_hash p)) \<and>
            handlePaymentIntentSucceeded env intent w = (Inr (), w1)"
  let ?w0 = "w\<lparr>payments := updatePayment (we_now env) (p_id p)
                 (no_payment_updates\<lparr>u_status := Some Processing\<rparr>) (payments w)\<rparr>"
  from a found have "settle_payment env intent p ?w0 = (Inr (), w1)"
    by (auto simp: handlePaymentIntentSucceeded_def Let_def split: prod.splits sum.splits option.splits)
  from settle_payment_success [OF this] obtain evs and receipt :: tx_receipt where
    count: "token_transfers w1 = token_transfers ?w0 + 1" and
    w1: "w1 = (log_effects (map Chain evs) ?w0)\<lparr>payments :=
                   updatePayment (we_now env) (p_id p)
                     (no_payment_updates\<lparr>u_tx_hash := Some (rc_hash receipt),
                        u_block_number := Some (rc_blockNumber receipt),
                        u_status := Some Completed,
                        u_completed_at := Some (we_now env)\<rparr>)
                     (payments ?w0)\<rparr>"
    by blast
  have row: "\<exists>p1 h. getPaymentByPaymentIntentId (pi_id intent) (payments w1) = Some p1 \<and>
                    p_status p1 = Completed \<and> tx_hash p1 = Some h"
    using found
    by (simp add: w1 log_effects_def getPayment_updatePayment completed_update_not_empty
          processing_update_not_empty apply_payment_updates_def no_payment_updates_def)
  then show "\<exists>p1 h. getPaymentByPaymentIntentId (pi_id intent) (payments w1) = Some p1 \<and>
                    p_status p1 = Completed \<and> tx_hash p1 = Some h" .
  from row show "handlePaymentIntentSucceeded env2 intent w1 = (Inr (), w1)"
    by (auto simp: handlePaymentIntentSucceeded_def)
  from count show "token_transfers w1 = token_transfers w + 1"
    by (simp add: token_transfers_def)
qed

lemma example_first_delivery:
  "fst (handlePaymentIntentSucceeded example_webhook_env example_intent example_world) = Inr ()"
  by code_simp

theorem charge_confirmed_idempotent_witness:
  "handlePaymentIntentSucceeded example_webhook_env_down example_intent
      (snd (handlePaymentIntentSucceeded example_webhook_env example_intent example_world))
     = (Inr (), snd (handlePaymentIntentSucceeded example_webhook_env example_intent example_world))
   \<and> token_transfers
        (snd (handlePaymentIntentSucceeded example_webhook_env example_intent example_world)) = 1
   \<and> handlePaymentIntentSucceeded example_webhook_env example_intent
        (example_world\<lparr>payments := [example_payment\<lparr>tx_hash := Some ''0xfeed''\<rparr>]\<rparr>)
     = (Inr (), example_world\<lparr>payments := [example_payment\<lparr>tx_hash := Some ''0xfeed''\<rparr>]\<rparr>)"
proof -
  let ?w1 = "snd (handlePaymentIntentSucceeded example_webhook_env example_intent example_world)"
  have found: "getPaymentByPaymentIntentId (pi_id example_intent) (payments example_world)
                 = Some example_payment"
    by code_simp
  have open_row: "\<not> (p_status example_payment = Completed \<or> truthy (tx_hash example_payment))"
    by code_simp
  have first: "handlePaymentIntentSucceeded example_webhook_env example_intent example_world
                 = (Inr (), ?w1)"
    using example_first_delivery
    by (cases "handlePaymentIntentSucceeded example_webhook_env example_intent example_world") simp
  have t0: "token_transfers example_world = 0"
    by code_simp
  let ?w2 = "example_world\<lparr>payments := [example_payment\<lparr>tx_hash := Some ''0xfeed''\<rparr>]\<rparr>"
  have found2: "getPaymentByPaymentIntentId (pi_id example_intent) (payments ?w2)
                 = Some (example_payment\<lparr>tx_hash := Some ''0xfeed''\<rparr>)"
    by code_simp
  have settled: "p_status (example_payment\<lparr>tx_hash := Some ''0xfeed''\<rparr>) = Completed \<or>
                 (\<exists>h. tx_hash (example_payment\<lparr>tx_hash := Some ''0xfeed''\<rparr>) = Some h \<and> h \<noteq> [])"
    by simp
  show ?thesis
    using charge_confirmed_idempotent [OF found, of example_webhook_env ?w1 example_webhook_env_down]
      charge_confirmed_idempotent [OF found2, of example_webhook_env] open_row first t0 settled
    by simp
qed


lemma missing_signature_rejected:
  "\<not> truthy (stripe_signature req) \<Longrightarrow>
     handleStripeWebhook env req w = ((400, ErrorOnly ''Missing stripe-signature header''), w)"
  by (simp add: handleStripeWebhook_def)

lemma unverified_event_not_dispatched:
  assumes "truthy (stripe_signature req)"
    and "verifyWebhookSignature env (wr_body req) (the (stripe_signature req)) (we_webhookSecret env)
           = Inl error"
  shows "handleStripeWebhook env req w = ((200, Received (Some (message error))), w)"
  using assms by (simp add: handleStripeWebhook_def)

lemma failed_processing_acknowledged:
  assumes "truthy (stripe_signature req)"
    and "verifyWebhookSignature env (wr_body req) (the (stripe_signature req)) (we_webhookSecret env)
           = Inr event"
    and "dispatch_event env event w = (Inl error, w1)"
  shows "handleStripeWebhook env req w = ((200, Received (Some (message error))), w1)"
  using assms by (simp add: handleStripeWebhook_def)

text \<open>
  Claim C6. An authenticated event whose processing fails is acknowledged with status 200
  and the failure text (lemma \<open>failed_processing_acknowledged\<close>), and a request whose
  signature is not authentic reaches no handler and changes nothing in the store (lemma
  \<open>unverified_event_not_dispatched\<close>). But only a request without the signature header
  is rejected: \<open>verifyWebhookSignature\<close> is called inside the \<open>try\<close> block whose
  \<open>catch\<close> acknowledges every error, so a forged signature is answered with status 200
  and \<open>received: true\<close>.
\<close>

theorem forged_signature_acknowledged:
  "handleStripeWebhook example_webhook_env
     \<lparr>stripe_signature = Some ''t=1,v1=forged'', wr_body = ''{}''\<rparr> example_world
   = ((200, Received (Some (''Stripe webhook error: ''
         @ ''No signatures found matching the expected signature for payload''))),
      example_world)"
  by code_simp

lemma example_failed_processing_acknowledged:
  "fst (handleStripeWebhook example_webhook_env_down
     \<lparr>stripe_signature = Some ''good'', wr_body = ''{}''\<rparr> example_world)
   = (200, Received (Some (''Failed to create USDT transfer transaction: ''
        @ ''Failed to transfer USDT from offramp wallet: connect ECONNREFUSED'')))"
  by code_simp


section \<open>Properties of \<open>requestCashout\<close>\<close>

lemma tx_hash_onchain_apply [simp]:
  "tx_hash_onchain (apply_cashout_updates now u c) = tx_hash_onchain c"
  by (simp add: apply_cashout_updates_def Let_def split: option.splits)

lemma hashes_updateCashout [simp]:
  "map tx_hash_onchain (updateCashout now i u tbl) = map tx_hash_onchain tbl"
  by (simp add: updateCashout_def comp_def)

lemma hashes_create_cashout_and_payout:
  "map tx_hash_onchain (cashouts (snd (create_cashout_and_payout env req w)))
     = map tx_hash_onchain (cashouts w) @ [the (rq_txHash req)]"
  by (simp add: create_cashout_and_payout_def createCashout_def log_effects_def Let_def
        split: prod.splits sum.splits)

lemma getCashoutByTxHash_None:
  "(getCashoutByTxHash h tbl = None) = (h \<notin> set (map tx_hash_onchain tbl))"
  by (auto simp: getCashoutByTxHash_def find_None_iff)

lemma cashout_checks_pass_effects:
  "cashout_checks env req = (Inr info, es) \<Longrightarrow> es = [ChainLookup (the (rq_txHash req))]"
  by (auto simp: cashout_checks_def Let_def split: option.splits if_splits sum.splits bool.splits)

lemma requestCashout_hashes:
  "map tx_hash_onchain (cashouts (snd (requestCashout env req w)))
     = (case cashout_checks env req of
          (Inl response, es) \<Rightarrow> map tx_hash_onchain (cashouts w)
        | (Inr info, es) \<Rightarrow>
            if the (rq_txHash req) \<in> set (map tx_hash_onchain (cashouts w))
            then map tx_hash_onchain (cashouts w)
            else map tx_hash_onchain (cashouts w) @ [the (rq_txHash req)])"
proof (cases "cashout_checks env req")
  case (Pair r es)
  show ?thesis
  proof (cases r)
    case (Inl response)
    with Pair show ?thesis by (simp add: requestCashout_def log_effects_def)
  next
    case (Inr info)
    show ?thesis
    proof (cases "getCashoutByTxHash (the (rq_txHash req)) (cashouts w)")
      case None
      then have "the (rq_txHash req) \<notin> set (map tx_hash_onchain (cashouts w))"
        using getCashoutByTxHash_None [of "the (rq_txHash req)" "cashouts w"] by simp
      with None Pair Inr show ?thesis
        by (simp add: requestCashout_def Let_def log_effects_def hashes_create_cashout_and_payout)
    next
      case (Some c)
      then have "the (rq_txHash req) \<in> set (map tx_hash_onchain (cashouts w))"
        using getCashoutByTxHash_None [of "the (rq_txHash req)" "cashouts w"] by simp
      with Some Pair Inr show ?thesis
        by (simp add: requestCashout_def Let_def log_effects_def)
    qed
  qed
qed

lemma requestCashout_preserves_unique_hash:
  "distinct (map tx_hash_onchain (cashouts w)) \<Longrightarrow>
     distinct (map tx_hash_onchain (cashouts (snd (requestCashout env req w))))"
  by (simp add: requestCashout_hashes split: prod.splits sum.splits)

lemma distinct_filter_one:
  "distinct (map f xs) \<Longrightarrow> h \<in> set (map f xs) \<Longrightarrow> length (filter (\<lambda>x. f x = h) xs) = 1"
proof (induction xs)
  case Nil
  then show ?case by simp
next
  case (Cons x xs)
  show ?case
  proof (cases "f x = h")
    case True
    with Cons.prems have "\<forall>y\<in>set xs. f y \<noteq> h"
      by (auto simp: image_iff)
    then have "filter (\<lambda>y. f y = h) xs = []"
      by (simp add: filter_empty_conv)
    with True show ?thesis by simp
  next
    case False
    with Cons show ?thesis by auto
  qed
qed

text \<open>
  Claim C2. \<open>requestCashout\<close> keeps the inbound transaction hashes of the Cashout table
  pairwise different. When two calls with the same submitted hash both pass validation and
  on-chain verification, the table holds exactly one row for that hash after the second
  call; the second call creates and changes no row, makes no call to the payment processor
  (its only outside call is the verification look-up), and answers 200 with the existing
  row's status.
\<close>

theorem duplicate_cashout_single_row:
  assumes inv: "distinct (map tx_hash_onchain (cashouts w))"
    and pass1: "cashout_checks env1 req1 = (Inr info1, es1)"
    and pass2: "cashout_checks env2 req2 = (Inr info2, es2)"
    and same: "rq_txHash req2 = rq_txHash req1"
    and first: "requestCashout env1 req1 w = (r1, w1)"
    and second: "requestCashout env2 req2 w1 = (r2, w2)"
  shows "distinct (map tx_hash_onchain (cashouts w2)) \<and>
         length (filter (\<lambda>c. tx_hash_onchain c = the (rq_txHash req1)) (cashouts w2)) = 1 \<and>
         cashouts w2 = cashouts w1 \<and>
         effects w2 = effects w1 @ [ChainLookup (the (rq_txHash req1))] \<and>
         (\<exists>c. getCashoutByTxHash (the (rq_txHash req1)) (cashouts w1) = Some c \<and>
              r2 = (200, CExisting (c_id c) (c_status c) (or_else (payout_id_stripe c) None)
                           (fiat_amount c) (c_fiat_currency c) (the (rq_txHash req1))))"
proof -
  let ?h = "the (rq_txHash req1)"
  have w1: "w1 = snd (requestCashout env1 req1 w)" using first by simp
  have hashes1: "map tx_hash_onchain (cashouts w1)
                   = (if ?h \<in> set (map tx_hash_onchain (cashouts w))
                      then map tx_hash_onchain (cashouts w)
                      else map tx_hash_onchain (cashouts w) @ [?h])"
    unfolding w1 requestCashout_hashes using pass1 by simp
  have d1: "distinct (map tx_hash_onchain (cashouts w1))"
    using inv hashes1 by (simp split: if_splits)
  have mem: "?h \<in> set (map tx_hash_onchain (cashouts w1))"
    using hashes1 by (simp split: if_splits)
  then obtain c where c: "getCashoutByTxHash ?h (cashouts w1) = Some c"
    using getCashoutByTxHash_None [of ?h "cashouts w1"] by (cases "getCashoutByTxHash ?h (cashouts w1)") auto
  have es2: "es2 = [ChainLookup ?h]"
    using cashout_checks_pass_effects [OF pass2] same by simp
  have res: "r2 = (200, CExisting (c_id c) (c_status c) (or_else (payout_id_stripe c) None)
                           (fiat_amount c) (c_fiat_currency c) ?h)"
       "w2 = log_effects es2 w1"
    using second pass2 c same by (simp_all add: requestCashout_def Let_def log_effects_def)
  have same_rows: "cashouts w2 = cashouts w1"
    using res(2) by (simp add: log_effects_def)
  show ?thesis
    using d1 mem c res es2 same_rows distinct_filter_one [OF d1 mem]
    by (simp add: log_effects_def)
qed


theorem duplicate_cashout_single_row_witness:
  "length (filter (\<lambda>c. tx_hash_onchain c = ''0xdeposit'')
      (cashouts (snd (requestCashout example_cashout_env example_cashout_request
         (snd (requestCashout example_cashout_env example_cashout_request example_world)))))) = 1
   \<and> fst (requestCashout example_cashout_env example_cashout_request
         (snd (requestCashout example_cashout_env example_cashout_request example_world)))
       = (200, CExisting 2 PendingPayout (Some ''po_1'') (Some ''100'') ''usd'' ''0xdeposit'')"
proof -
  let ?first = "requestCashout example_cashout_env example_cashout_request example_world"
  let ?second = "requestCashout example_cashout_env example_cashout_request (snd ?first)"
  have inv: "distinct (map tx_hash_onchain (cashouts example_world))"
    by code_simp
  have pass: "cashout_checks example_cashout_env example_cashout_request
                = (Inr \<lparr>ti_from = toLowerCase example_employee, ti_to = example_custody,
                        ti_amount = ''100.004''\<rparr>, [ChainLookup ''0xdeposit''])"
    by code_simp
  have h: "the (rq_txHash example_cashout_request) = ''0xdeposit''"
    by code_simp
  have row: "getCashoutByTxHash ''0xdeposit'' (cashouts (snd ?first))
               = Some \<lparr>c_id = 2, employee_address = toLowerCase example_employee,
                   c_amount_usdt = ''100.00'', c_fiat_currency = ''usd'',
                   fiat_amount = Some ''100'', c_exchange_rate = Some ''1'',
                   tx_hash_onchain = ''0xdeposit'', payout_id_stripe = Some ''po_1'',
                   stripe_bank_account_id = Some ''ba_test_1'', c_status = PendingPayout,
                   c_error_message = None, c_created_at = 30, c_updated_at = 30,
                   c_completed_at = None\<rparr>"
    by code_simp
  note main = duplicate_cashout_single_row [OF inv pass pass refl
                  prod.collapse [symmetric] prod.collapse [symmetric], unfolded h]
  have one: "length (filter (\<lambda>c. tx_hash_onchain c = ''0xdeposit'') (cashouts (snd ?second))) = 1"
    using main by blast
  from main obtain c where
    c: "getCashoutByTxHash ''0xdeposit'' (cashouts (snd ?first)) = Some c" and
    r2: "fst ?second = (200, CExisting (c_id c) (c_status c) (or_else (payout_id_stripe c) None)
                           (fiat_amount c) (c_fiat_currency c) ''0xdeposit'')"
    by blast
  have answer: "fst ?second
       = (200, CExisting 2 PendingPayout (Some ''po_1'') (Some ''100'') ''usd'' ''0xdeposit'')"
    using c r2 row by (auto simp: or_else_def)
  from one answer show ?thesis by (rule conjI)
qed

lemma field_error_rejects_unchanged:
  "cashout_field_error env req = Some response \<Longrightarrow> requestCashout env req w = (response, w)"
  by (simp add: requestCashout_def cashout_checks_def log_effects_def)

text \<open>
  Claim C5, as amended. For every \<open>requestCashout\<close> call that passes the checks on the
  fields of the request and whose signature does not recover to the claimed source wallet,
  the call fails with status 401 and the error \<open>Invalid signature\<close>; the chain is not
  looked up and the store is unchanged. A call that fails a field check is answered by that
  check, before the signature is examined and likewise without look-up or change.
\<close>

theorem invalid_signature_before_chain_lookup:
  "(cashout_field_error env req = None \<and>
    \<not> verifySignature (ce_recover env) (the (rq_message req)) (the (rq_signature req))
        (the (or_else (rq_employeeAddress req) (rq_address req))) \<longrightarrow>
      requestCashout env req w = ((401, CError ''Invalid signature''), w)) \<and>
   (cashout_field_error env req = Some response \<longrightarrow>
      requestCashout env req w = (response, w))"
  using field_error_rejects_unchanged [of env req response w]
  by (simp add: requestCashout_def cashout_checks_def log_effects_def Let_def)

theorem invalid_signature_before_chain_lookup_witness:
  "requestCashout example_cashout_env example_foreign_signature example_world
     = ((401, CError ''Invalid signature''), example_world) \<and>
   requestCashout example_cashout_env (example_foreign_signature\<lparr>rq_amount := Some ''0''\<rparr>)
       example_world
     = ((400, CError ''Invalid amount''), example_world)"
proof -
  have fields: "cashout_field_error example_cashout_env example_foreign_signature = None"
    by code_simp
  have foreign: "\<not> verifySignature (ce_recover example_cashout_env)
                    (the (rq_message example_foreign_signature))
                    (the (rq_signature example_foreign_signature))
                    (the (or_else (rq_employeeAddress example_foreign_signature)
                            (rq_address example_foreign_signature)))"
    by code_simp
  have zero: "cashout_field_error example_cashout_env
                (example_foreign_signature\<lparr>rq_amount := Some ''0''\<rparr>)
                = Some (400, CError ''Invalid amount'')"
    by code_simp
  have a: "requestCashout example_cashout_env example_foreign_signature example_world
             = ((401, CError ''Invalid signature''), example_world)"
    using invalid_signature_before_chain_lookup
            [of example_cashout_env example_foreign_signature example_world] fields foreign
    by blast
  have b: "requestCashout example_cashout_env
             (example_foreign_signature\<lparr>rq_amount := Some ''0''\<rparr>) example_world
             = ((400, CError ''Invalid amount''), example_world)"
    using invalid_signature_before_chain_lookup
            [of example_cashout_env "example_foreign_signature\<lparr>rq_amount := Some ''0''\<rparr>"
                example_world "(400, CError ''Invalid amount'')"] zero
    by blast
  from a b show ?thesis by blast
qed

text \<open>
  The claim C5 as stated fails for a call whose signature recovers to another address and
  whose amount is \<open>0\<close>: the amount check comes first and answers 400 \<open>Invalid amount\<close>.
\<close>

theorem invalid_signature_other_error_counterexample:
  "\<not> verifySignature (ce_recover example_cashout_env)
        (the (rq_message (example_foreign_signature\<lparr>rq_amount := Some ''0''\<rparr>)))
        (the (rq_signature (example_foreign_signature\<lparr>rq_amount := Some ''0''\<rparr>)))
        example_employee
   \<and> requestCashout example_cashout_env (example_foreign_signature\<lparr>rq_amount := Some ''0''\<rparr>)
        example_world
       = ((400, CError ''Invalid amount''), example_world)
   \<and> fst (requestCashout example_cashout_env (example_foreign_signature\<lparr>rq_amount := Some ''0''\<rparr>)
        example_world)
       \<noteq> (401, CError ''Invalid signature'')"
  by code_simp


section \<open>Properties of \<open>executePayroll\<close>\<close>

lemma map_set_keys: "fst ` set (map_set k v m) = insert k (fst ` set m)"
proof (induction m)
  case Nil
  show ?case by simp
next
  case (Cons p m)
  obtain k' v' where p: "p = (k', v')" by (cases p)
  show ?case using Cons.IH by (cases "k = k'") (auto simp: p)
qed

lemma map_set_distinct: "distinct (map fst m) \<Longrightarrow> distinct (map fst (map_set k v m))"
proof (induction m)
  case Nil
  show ?case by simp
next
  case (Cons p m)
  obtain k' v' where p: "p = (k', v')" by (cases p)
  show ?case using Cons by (cases "k = k'") (auto simp: p map_set_keys)
qed

lemma foldl_map_set_distinct:
  "distinct (map fst m) \<Longrightarrow>
     distinct (map fst (foldl (\<lambda>m r. map_set (key r) (val r) m) m batch))"
  by (induction batch arbitrary: m) (simp_all add: map_set_distinct)

lemma expected_employees_distinct: "distinct (map fst (expected_employees batch))"
  unfolding expected_employees_def by (rule foldl_map_set_distinct) simp

lemma expects_is_key: "expects expected a \<Longrightarrow> a \<in> set (map fst expected)"
  by (auto simp: expects_def split: option.splits dest: map_of_SomeD intro: rev_image_eqI)

lemma reconcile_mismatch:
  "list_ex (mismatched expected) ts \<Longrightarrow>
     \<exists>t e. find (mismatched expected) ts = Some t \<and>
           map_of expected (toLowerCase (tr_to t)) = Some e \<and>
           reconcile expected ts received = Inl (400, PAmountMismatch (tr_to t) e (tr_amount t))"
proof (induction ts arbitrary: received)
  case Nil
  then show ?case by simp
next
  case (Cons t ts)
  show ?case
  proof (cases "mismatched expected t")
    case True
    then show ?thesis
      by (auto simp: mismatched_def Let_def split: option.splits)
  next
    case False
    with Cons.prems have "list_ex (mismatched expected) ts" by simp
    from Cons.IH [OF this] False show ?thesis
      by (auto simp: mismatched_def Let_def split: option.splits)
  qed
qed

lemma reconcile_collects:
  "\<not> list_ex (mismatched expected) ts \<Longrightarrow>
     \<exists>received'. reconcile expected ts received = Inr received' \<and>
        set received' = set received \<union> {a. expects expected a \<and> paid_to ts a} \<and>
        (distinct received \<longrightarrow> distinct received')"
proof (induction ts arbitrary: received)
  case Nil
  then show ?case by (simp add: paid_to_def)
next
  case (Cons t ts)
  from Cons.prems have ok: "\<not> mismatched expected t" and rest: "\<not> list_ex (mismatched expected) ts"
    by simp_all
  let ?to = "toLowerCase (tr_to t)"
  show ?case
  proof (cases "expects expected ?to")
    case False
    then have step: "reconcile expected (t # ts) received = reconcile expected ts received"
      by (auto simp: expects_def Let_def split: option.splits)
    from Cons.IH [OF rest, of received] False show ?thesis
      unfolding step by (auto simp: paid_to_def)
  next
    case True
    with ok have step: "reconcile expected (t # ts) received
                          = reconcile expected ts (set_add ?to received)"
      by (auto simp: expects_def mismatched_def Let_def split: option.splits)
    have sa: "set (set_add ?to received) = insert ?to (set received)"
         "distinct received \<longrightarrow> distinct (set_add ?to received)"
      by (auto simp: set_add_def)
    from Cons.IH [OF rest, of "set_add ?to received"] True sa show ?thesis
      unfolding step by (auto simp: paid_to_def)
  qed
qed


lemma payroll_id_apply [simp]: "payroll_id (apply_payroll_updates u r) = payroll_id r"
  by (simp add: apply_payroll_updates_def Let_def split: option.splits)

lemma apply_payroll_updates_idem:
  "apply_payroll_updates u (apply_payroll_updates u r) = apply_payroll_updates u r"
  by (simp add: apply_payroll_updates_def Let_def split: option.splits)

lemma updatePayroll_idem:
  "updatePayroll pid u (updatePayroll pid u tbl) = updatePayroll pid u tbl"
  by (simp add: updatePayroll_def comp_def apply_payroll_updates_idem cong: if_cong)

lemma update_each_settled:
  "list_all (\<lambda>r. payroll_id r = pid) rs \<Longrightarrow>
     update_each u rs (updatePayroll pid u tbl) = updatePayroll pid u tbl"
  by (induction rs) (simp_all add: update_each_def updatePayroll_idem)

lemma update_each_batch:
  assumes "getPayrollsByPayrollId pid tbl = first # others"
  shows "update_each u (first # others) tbl = updatePayroll pid u tbl"
proof -
  have all: "list_all (\<lambda>r. payroll_id r = pid) (first # others)"
    using assms [symmetric] by (simp add: getPayrollsByPayrollId_def list_all_iff)
  then have "payroll_id first = pid" "list_all (\<lambda>r. payroll_id r = pid) others"
    by simp_all
  then show ?thesis
    using update_each_settled [of pid others u tbl] by (simp add: update_each_def)
qed

lemma updatePayroll_completed:
  "updatePayroll pid \<lparr>pu_tx_hash = Some tx, pu_block_number = Some bn,
       pu_status = Some PayrollCompleted\<rparr> tbl = settle_batch pid tx bn tbl"
  by (simp add: updatePayroll_def settle_batch_def apply_payroll_updates_def
        no_payroll_updates_def)

lemma all_received_iff:
  assumes "distinct received" "distinct keys" "set received \<subseteq> set keys"
  shows "(length received = length keys) = (filter (\<lambda>a. a \<notin> set received) keys = [])"
proof
  assume len: "length received = length keys"
  have "card (set received) = card (set keys)"
    using assms(1,2) len by (simp add: distinct_card)
  then have "set received = set keys"
    using assms(3) by (simp add: card_subset_eq)
  then show "filter (\<lambda>a. a \<notin> set received) keys = []"
    by (simp add: filter_empty_conv)
next
  assume "filter (\<lambda>a. a \<notin> set received) keys = []"
  then have "set keys \<subseteq> set received"
    by (auto simp: filter_empty_conv)
  with assms(3) have "set received = set keys" by auto
  then show "length received = length keys"
    using assms(1,2) by (metis distinct_card)
qed

text \<open>
  Claim C3, as amended. For a verified transaction and a non-empty batch:
  if an observed transfer pays an expected recipient an amount out of tolerance,
  \<open>executePayroll\<close> changes no row and answers 400 with an amount-mismatch error that
  carries the expected and the received amount of the first such transfer; otherwise, if
  some expected recipient is not paid, it changes no row and answers 400 with the list of
  the missing recipients; only when neither is the case does it mark the rows of the batch,
  all of them and no other row, \<open>completed\<close> with the same transaction hash and block
  number.
\<close>

theorem batch_reconciliation:
  assumes id: "truthy (er_payrollId req)" and tx: "truthy (er_txHash req)"
    and batch: "getPayrollsByPayrollId (the (er_payrollId req)) (payrolls w) = first # others"
    and verified: "verifyPayrollTransaction (the (er_txHash req)) (employer_address first) = Inr v"
    and result: "executePayroll verifyPayrollTransaction req w = (response, w')"
  shows "(list_ex (mismatched (expected_employees (first # others))) (pv_transfers v) \<longrightarrow>
            payrolls w' = payrolls w \<and>
            (\<exists>t e. find (mismatched (expected_employees (first # others))) (pv_transfers v) = Some t \<and>
                   map_of (expected_employees (first # others)) (toLowerCase (tr_to t)) = Some e \<and>
                   response = (400, PAmountMismatch (tr_to t) e (tr_amount t)))) \<and>
         (\<not> list_ex (mismatched (expected_employees (first # others))) (pv_transfers v) \<and>
            missing_recipients (expected_employees (first # others)) (pv_transfers v) \<noteq> [] \<longrightarrow>
            payrolls w' = payrolls w \<and>
            response = (400, PMissing (missing_recipients (expected_employees (first # others))
                                         (pv_transfers v)))) \<and>
         (\<not> list_ex (mismatched (expected_employees (first # others))) (pv_transfers v) \<and>
            missing_recipients (expected_employees (first # others)) (pv_transfers v) = [] \<longrightarrow>
            fst response = 200 \<and>
            payrolls w' = settle_batch (the (er_payrollId req)) (the (er_txHash req))
                            (pv_blockNumber v) (payrolls w))"
proof -
  let ?expected = "expected_employees (first # others)"
  let ?ts = "pv_transfers v"
  let ?w1 = "log_effects [PayrollLookup (the (er_txHash req)) (employer_address first)] w"
  note unfold = executePayroll_def Let_def log_effects_def id tx batch verified
  show ?thesis
  proof (cases "list_ex (mismatched ?expected) ?ts")
    case True
    from reconcile_mismatch [OF True, of "[]"] obtain t e where
      "find (mismatched ?expected) ?ts = Some t"
      "map_of ?expected (toLowerCase (tr_to t)) = Some e"
      "reconcile ?expected ?ts [] = Inl (400, PAmountMismatch (tr_to t) e (tr_amount t))"
      by blast
    with result True show ?thesis by (auto simp: unfold)
  next
    case False
    from reconcile_collects [OF False, of "[]"] obtain received where
      rec: "reconcile ?expected ?ts [] = Inr received" and
      set_rec: "set received = {a. expects ?expected a \<and> paid_to ?ts a}" and
      dist: "distinct received"
      by auto
    have sub: "set received \<subseteq> set (map fst ?expected)"
      using set_rec expects_is_key by auto
    have missing: "filter (\<lambda>addr. addr \<notin> set received) (map fst ?expected)
                     = missing_recipients ?expected ?ts"
      by (simp add: missing_recipients_def set_rec)
    have len: "(length received = length ?expected) = (missing_recipients ?expected ?ts = [])"
      using all_received_iff [OF dist expected_employees_distinct sub] missing by simp
    show ?thesis
    proof (cases "missing_recipients ?expected ?ts = []")
      case True
      with len have "length received = length ?expected" by simp
      with result rec False True show ?thesis
        using update_each_batch [OF batch] by (auto simp: unfold updatePayroll_completed)
    next
      case missing_some: False
      with len have "length received \<noteq> length ?expected" by simp
      with result rec False missing_some missing show ?thesis
        by (auto simp: unfold)
    qed
  qed
qed


lemma example_batch_rows:
  "getPayrollsByPayrollId (the (er_payrollId example_payroll_request)) (payrolls example_batch_world)
     = \<lparr>pr_id = 1, payroll_id = ''batch-1'', employer_address = ''0xe1'',
          pr_employee_address = ''0xa1'', pr_amount_usdt = ''100.00'', pr_tx_hash = None,
          pr_block_number = None, pr_status = PayrollPending\<rparr>
       # [\<lparr>pr_id = 2, payroll_id = ''batch-1'', employer_address = ''0xe1'',
           pr_employee_address = ''0xb2'', pr_amount_usdt = ''20'', pr_tx_hash = None,
           pr_block_number = None, pr_status = PayrollPending\<rparr>]"
  by code_simp

theorem batch_reconciliation_witness:
  "fst (executePayroll pays_first_only example_payroll_request example_batch_world)
     = (400, PMissing [''0xb2'']) \<and>
   payrolls (snd (executePayroll pays_first_only example_payroll_request example_batch_world))
     = payrolls example_batch_world \<and>
   payrolls (snd (executePayroll pays_first_too_much example_payroll_request example_batch_world))
     = payrolls example_batch_world \<and>
   payrolls (snd (executePayroll pays_both example_payroll_request example_batch_world))
     = settle_batch ''batch-1'' ''0xpay'' 9 (payrolls example_batch_world)"
proof -
  let ?row1 = "\<lparr>pr_id = 1, payroll_id = ''batch-1'', employer_address = ''0xe1'',
          pr_employee_address = ''0xa1'', pr_amount_usdt = ''100.00'', pr_tx_hash = None,
          pr_block_number = None, pr_status = PayrollPending\<rparr>"
  let ?row2 = "\<lparr>pr_id = 2, payroll_id = ''batch-1'', employer_address = ''0xe1'',
           pr_employee_address = ''0xb2'', pr_amount_usdt = ''20'', pr_tx_hash = None,
           pr_block_number = None, pr_status = PayrollPending\<rparr>"
  let ?only = "\<lparr>pv_transfers = [\<lparr>tr_from = ''0xE1'', tr_to = ''0xA1'', tr_amount = ''100.0''\<rparr>],
          pv_blockNumber = 9\<rparr>"
  let ?much = "\<lparr>pv_transfers = [\<lparr>tr_from = ''0xE1'', tr_to = ''0xA1'', tr_amount = ''100.02''\<rparr>],
          pv_blockNumber = 9\<rparr>"
  let ?both = "\<lparr>pv_transfers =
            [\<lparr>tr_from = ''0xE1'', tr_to = ''0xA1'', tr_amount = ''100.004''\<rparr>,
             \<lparr>tr_from = ''0xE1'', tr_to = ''0xB2'', tr_amount = ''20.0''\<rparr>],
          pv_blockNumber = 9\<rparr>"
  have id: "truthy (er_payrollId example_payroll_request)"
    and tx: "truthy (er_txHash example_payroll_request)"
    by code_simp+
  have names: "the (er_payrollId example_payroll_request) = ''batch-1''"
      "the (er_txHash example_payroll_request) = ''0xpay''"
    by code_simp+
  have v1: "pays_first_only (the (er_txHash example_payroll_request)) (employer_address ?row1)
              = Inr ?only"
    and v2: "pays_first_too_much (the (er_txHash example_payroll_request)) (employer_address ?row1)
              = Inr ?much"
    and v3: "pays_both (the (er_txHash example_payroll_request)) (employer_address ?row1)
              = Inr ?both"
    by (simp_all add: pays_first_only_def pays_first_too_much_def pays_both_def)
  have c1: "\<not> list_ex (mismatched (expected_employees (?row1 # [?row2]))) (pv_transfers ?only)"
       "missing_recipients (expected_employees (?row1 # [?row2])) (pv_transfers ?only) = [''0xb2'']"
    by code_simp+
  have c2: "list_ex (mismatched (expected_employees (?row1 # [?row2]))) (pv_transfers ?much)"
    by code_simp
  have c3: "\<not> list_ex (mismatched (expected_employees (?row1 # [?row2]))) (pv_transfers ?both)"
       "missing_recipients (expected_employees (?row1 # [?row2])) (pv_transfers ?both) = []"
    by code_simp+
  note r1 = batch_reconciliation [where verifyPayrollTransaction = pays_first_only,
      OF id tx example_batch_rows v1 prod.collapse [symmetric]]
  note r2 = batch_reconciliation [where verifyPayrollTransaction = pays_first_too_much,
      OF id tx example_batch_rows v2 prod.collapse [symmetric]]
  note r3 = batch_reconciliation [where verifyPayrollTransaction = pays_both,
      OF id tx example_batch_rows v3 prod.collapse [symmetric]]
  have a: "fst (executePayroll pays_first_only example_payroll_request example_batch_world)
             = (400, PMissing [''0xb2''])"
     "payrolls (snd (executePayroll pays_first_only example_payroll_request example_batch_world))
     = payrolls example_batch_world"
    using r1 c1 by simp_all
  have b: "payrolls (snd (executePayroll pays_first_too_much example_payroll_request example_batch_world))
     = payrolls example_batch_world"
    using r2 c2 by blast
  have c: "payrolls (snd (executePayroll pays_both example_payroll_request example_batch_world))
     = settle_batch ''batch-1'' ''0xpay'' 9 (payrolls example_batch_world)"
    using r3 c3 names by simp
  from a b c show ?thesis by blast
qed

text \<open>
  The claim C3 as stated fails where a matched transfer is out of tolerance: the batch
  expects 100.00 for \<open>0xa1\<close> and 20 for \<open>0xb2\<close>, the transaction pays \<open>0xa1\<close> 100.02 and
  \<open>0xb2\<close> nothing; the answer is the amount mismatch of \<open>0xa1\<close>, not the list of missing
  recipients.
\<close>

theorem batch_mismatch_counterexample:
  "missing_recipients
      (expected_employees (getPayrollsByPayrollId ''batch-1'' (payrolls example_batch_world)))
      [\<lparr>tr_from = ''0xE1'', tr_to = ''0xA1'', tr_amount = ''100.02''\<rparr>] = [''0xb2''] \<and>
   fst (executePayroll pays_first_too_much example_payroll_request example_batch_world)
     = (400, PAmountMismatch ''0xA1'' ''100.00'' ''100.02'') \<and>
   fst (executePayroll pays_first_too_much example_payroll_request example_batch_world)
     \<noteq> (400, PMissing [''0xb2''])"
  by code_simp


section \<open>The amount tolerance\<close>

lemma rounded_magnitude_nonneg:
  "0 \<le> a \<Longrightarrow> 0 \<le> (of_int (round_half_even (a / 2 powi e)) :: rat) * 2 powi e"
  by (intro mult_nonneg_nonneg) (simp_all add: round_half_even_ge)

lemma js_abs_to_double: "js_abs (to_double q) = to_double \<bar>q\<bar>"
proof (cases "q < 0")
  case True
  then have "0 \<le> - q" by simp
  from rounded_magnitude_nonneg [OF this] True show ?thesis
    by (simp add: to_double_def Let_def)
next
  case False
  then have "0 \<le> q" by simp
  from rounded_magnitude_nonneg [OF this] False show ?thesis
    by (simp add: to_double_def Let_def)
qed

text \<open>
  For two finite doubles the comparison refuses exactly the differences from
  \<open>tolerance_threshold\<close> on: the subtraction rounds the exact difference, and the rounded
  difference lies above the double \<open>0.01\<close> exactly then.
\<close>

lemma exceeds_tolerance_threshold:
  assumes "parseFloat t = Fin x" and "parseFloat e = Fin y"
  shows "exceeds_tolerance t e = (tolerance_threshold \<le> \<bar>x - y\<bar>)"
proof -
  have "exceeds_tolerance t e = js_lt (to_double (1 / 100)) (to_double \<bar>x - y\<bar>)"
    by (simp add: exceeds_tolerance_def amount_diff_def js_sub_def js_gt_def assms
          js_abs_to_double)
  also have "\<dots> = (tolerance_threshold \<le> \<bar>x - y\<bar>)"
  proof (cases "tolerance_threshold \<le> \<bar>x - y\<bar>")
    case True
    then show ?thesis by (simp add: above_threshold)
  next
    case False
    then have "\<bar>x - y\<bar> < tolerance_threshold" by simp
    with below_threshold [of "\<bar>x - y\<bar>"] False show ?thesis by simp
  qed
  finally show ?thesis .
qed

lemma tolerance_threshold_bounds:
  "1 / 100 < tolerance_threshold" "tolerance_threshold < 1 / 100 + 1 / 10 ^ 17"
  by (simp_all add: tolerance_threshold_def)

text \<open>A text that is no number compares as within tolerance: every comparison with \<open>NaN\<close> is false.\<close>

lemma exceeds_tolerance_nan:
  "parseFloat e = NaN \<Longrightarrow> \<not> exceeds_tolerance t e"
  "parseFloat t = NaN \<Longrightarrow> \<not> exceeds_tolerance t e"
  by (cases "parseFloat t"; cases "parseFloat e";
      simp add: exceeds_tolerance_def amount_diff_def js_sub_def js_gt_def tolerance_value)+

text \<open>
  At the boundary the doubles decide: 100.01 is read as a double a little above 100.01 and
  is refused against 100.00; 10.010000000000000001 is read as the double a little below
  10.01 and passes against 10.
\<close>

lemma tolerance_boundary_examples:
  "exceeds_tolerance ''100.01'' ''100.00''"
  "\<not> exceeds_tolerance ''10.010000000000000001'' ''10''"
  by code_simp+

lemma cashout_mismatch_payload:
  assumes "cashout_checks env req = (Inl (400, CAmountMismatch requested transferred), es)"
  shows "requested = parseFloat (the (rq_amount req)) \<and>
         (\<exists>info. ce_verifyTransfer env (the (rq_txHash req)) = Inr info \<and>
                 transferred = parseFloat (ti_amount info) \<and>
                 exceeds_tolerance (ti_amount info) (the (rq_amount req)))"
  using assms
  by (auto simp: cashout_checks_def cashout_field_error_def cashout_failure_def Let_def
        split: option.splits if_splits sum.splits bool.splits)

lemma cashout_pass_within_tolerance:
  assumes "cashout_checks env req = (Inr info, es)"
  shows "\<not> exceeds_tolerance (ti_amount info) (the (rq_amount req))"
  using assms
  by (auto simp: cashout_checks_def Let_def
        split: option.splits if_splits sum.splits bool.splits)

text \<open>
  \<open>executePayroll\<close> compares every observed transfer that pays an expected recipient: the
  answer is an amount mismatch exactly when one of them, wherever it stands in the list,
  is out of tolerance, and it carries the amounts of the first such transfer.
\<close>

lemma payroll_amount_check:
  assumes id: "truthy (er_payrollId req)" and tx: "truthy (er_txHash req)"
    and batch: "getPayrollsByPayrollId (the (er_payrollId req)) (payrolls w) = first # others"
    and verified: "verifyPayrollTransaction (the (er_txHash req)) (employer_address first) = Inr v"
  shows "is_amount_mismatch (snd (fst (executePayroll verifyPayrollTransaction req w)))
           = list_ex (mismatched (expected_employees (first # others))) (pv_transfers v)"
    and "list_ex (mismatched (expected_employees (first # others))) (pv_transfers v) \<Longrightarrow>
           \<exists>t e. find (mismatched (expected_employees (first # others))) (pv_transfers v) = Some t \<and>
                 map_of (expected_employees (first # others)) (toLowerCase (tr_to t)) = Some e \<and>
                 exceeds_tolerance (tr_amount t) e \<and>
                 fst (executePayroll verifyPayrollTransaction req w)
                   = (400, PAmountMismatch (tr_to t) e (tr_amount t))"
proof -
  let ?expected = "expected_employees (first # others)"
  let ?ts = "pv_transfers v"
  note unfold = executePayroll_def Let_def id tx batch verified
  have found: "\<exists>t e. find (mismatched ?expected) ?ts = Some t \<and>
                 map_of ?expected (toLowerCase (tr_to t)) = Some e \<and>
                 exceeds_tolerance (tr_amount t) e \<and>
                 fst (executePayroll verifyPayrollTransaction req w)
                   = (400, PAmountMismatch (tr_to t) e (tr_amount t))"
    if some: "list_ex (mismatched ?expected) ?ts"
  proof -
    from reconcile_mismatch [OF some, of "[]"] obtain t e where
      t: "find (mismatched ?expected) ?ts = Some t"
      and e: "map_of ?expected (toLowerCase (tr_to t)) = Some e"
      and r: "reconcile ?expected ?ts [] = Inl (400, PAmountMismatch (tr_to t) e (tr_amount t))"
      by blast
    from t have "mismatched ?expected t" by (auto simp: find_Some_iff)
    with e have "exceeds_tolerance (tr_amount t) e" by (simp add: mismatched_def)
    with t e r show ?thesis by (auto simp: unfold)
  qed
  show "list_ex (mismatched ?expected) ?ts \<Longrightarrow>
           \<exists>t e. find (mismatched ?expected) ?ts = Some t \<and>
                 map_of ?expected (toLowerCase (tr_to t)) = Some e \<and>
                 exceeds_tolerance (tr_amount t) e \<and>
                 fst (executePayroll verifyPayrollTransaction req w)
                   = (400, PAmountMismatch (tr_to t) e (tr_amount t))"
    by (rule found)
  show "is_amount_mismatch (snd (fst (executePayroll verifyPayrollTransaction req w)))
           = list_ex (mismatched ?expected) ?ts"
  proof (cases "list_ex (mismatched ?expected) ?ts")
    case True
    from found [OF True] True show ?thesis by auto
  next
    case False
    from reconcile_collects [OF False, of "[]"] obtain received where
      "reconcile ?expected ?ts [] = Inr received" by auto
    with False show ?thesis by (simp add: unfold)
  qed
qed

lemma tolerance_examples:
  "\<not> exceeds_tolerance ''100.004'' ''100.00''" "exceeds_tolerance ''100.02'' ''100.00''"
  by code_simp+

lemma tolerance_examples_cashout:
  "fst (requestCashout example_cashout_env example_cashout_request example_world)
     = (200, CCreated 2 ''po_1'' ''100'' ''usd'' ''0xdeposit'')"
  "fst (requestCashout example_cashout_env_excess example_cashout_request example_world)
     = (400, CAmountMismatch (parseFloat ''100.00'') (parseFloat ''100.02''))"
  by code_simp+

lemma tolerance_examples_payroll:
  "fst (executePayroll pays_both example_payroll_request example_batch_world)
     = (200, PSuccess ''batch-1'' ''0xpay'' 9 2 2)"
  "fst (executePayroll pays_first_too_much example_payroll_request example_batch_world)
     = (400, PAmountMismatch ''0xA1'' ''100.00'' ''100.02'')"
  "fst (executePayroll pays_second_too_much example_payroll_request example_batch_world)
     = (400, PAmountMismatch ''0xB2'' ''20'' ''20.02'')"
  by code_simp+

text \<open>
  Claim C4. Both \<open>requestCashout\<close> and \<open>executePayroll\<close> compare the observed and the
  expected amount with an absolute tolerance of 0.01, in double arithmetic as the code
  does: a transfer of 100.004 against 100.00 passes, a transfer of 100.02 against 100.00
  is refused; in general two amounts that are read as the finite doubles \<open>x\<close> and \<open>y\<close> are
  refused exactly when \<open>|x - y|\<close> reaches \<open>tolerance_threshold\<close>, which lies above 1/100 by
  less than \<open>10^-17\<close>. \<open>requestCashout\<close> answers an amount mismatch only for a transfer out
  of tolerance, with the requested and the transferred amount in the body, and lets a
  transfer pass only within tolerance. \<open>executePayroll\<close>, for a verified transaction of a
  non-empty batch, answers an amount mismatch exactly when some observed transfer to an
  expected recipient, at any position, is out of tolerance, with the expected and the
  received amount of the first such transfer in the body. The two example amounts give
  the responses 200 and 400 in both handlers.
\<close>

theorem amount_tolerance_boundary:
  "\<not> exceeds_tolerance ''100.004'' ''100.00'' \<and>
   exceeds_tolerance ''100.02'' ''100.00'' \<and>
   (parseFloat t = Fin x \<and> parseFloat e = Fin y \<longrightarrow>
      exceeds_tolerance t e = (tolerance_threshold \<le> \<bar>x - y\<bar>)) \<and>
   1 / 100 < tolerance_threshold \<and> tolerance_threshold < 1 / 100 + 1 / 10 ^ 17 \<and>
   (cashout_checks env req = (Inl (400, CAmountMismatch requested transferred), es) \<longrightarrow>
      requested = parseFloat (the (rq_amount req)) \<and>
      (\<exists>info. ce_verifyTransfer env (the (rq_txHash req)) = Inr info \<and>
              transferred = parseFloat (ti_amount info) \<and>
              exceeds_tolerance (ti_amount info) (the (rq_amount req)))) \<and>
   (cashout_checks env req = (Inr passed, es) \<longrightarrow>
      \<not> exceeds_tolerance (ti_amount passed) (the (rq_amount req))) \<and>
   (truthy (er_payrollId batchReq) \<and> truthy (er_txHash batchReq) \<and>
    getPayrollsByPayrollId (the (er_payrollId batchReq)) (payrolls w) = first # others \<and>
    verifyPayrollTransaction (the (er_txHash batchReq)) (employer_address first) = Inr v \<longrightarrow>
      is_amount_mismatch (snd (fst (executePayroll verifyPayrollTransaction batchReq w)))
        = list_ex (mismatched (expected_employees (first # others))) (pv_transfers v) \<and>
      (list_ex (mismatched (expected_employees (first # others))) (pv_transfers v) \<longrightarrow>
         (\<exists>transfer expectedAmount.
             find (mismatched (expected_employees (first # others))) (pv_transfers v)
               = Some transfer \<and>
             map_of (expected_employees (first # others)) (toLowerCase (tr_to transfer))
               = Some expectedAmount \<and>
             exceeds_tolerance (tr_amount transfer) expectedAmount \<and>
             fst (executePayroll verifyPayrollTransaction batchReq w)
               = (400, PAmountMismatch (tr_to transfer) expectedAmount (tr_amount transfer))))) \<and>
   fst (requestCashout example_cashout_env example_cashout_request example_world)
     = (200, CCreated 2 ''po_1'' ''100'' ''usd'' ''0xdeposit'') \<and>
   fst (requestCashout example_cashout_env_excess example_cashout_request example_world)
     = (400, CAmountMismatch (parseFloat ''100.00'') (parseFloat ''100.02'')) \<and>
   fst (executePayroll pays_both example_payroll_request example_batch_world)
     = (200, PSuccess ''batch-1'' ''0xpay'' 9 2 2) \<and>
   fst (executePayroll pays_first_too_much example_payroll_request example_batch_world)
     = (400, PAmountMismatch ''0xA1'' ''100.00'' ''100.02'') \<and>
   fst (executePayroll pays_second_too_much example_payroll_request example_batch_world)
     = (400, PAmountMismatch ''0xB2'' ''20'' ''20.02'')"
proof -
  have general: "parseFloat t = Fin x \<and> parseFloat e = Fin y \<longrightarrow>
      exceeds_tolerance t e = (tolerance_threshold \<le> \<bar>x - y\<bar>)"
    using exceeds_tolerance_threshold [of t x e y] by blast
  have refused: "cashout_checks env req = (Inl (400, CAmountMismatch requested transferred), es) \<longrightarrow>
      requested = parseFloat (the (rq_amount req)) \<and>
      (\<exists>info. ce_verifyTransfer env (the (rq_txHash req)) = Inr info \<and>
              transferred = parseFloat (ti_amount info) \<and>
              exceeds_tolerance (ti_amount info) (the (rq_amount req)))"
    using cashout_mismatch_payload [of env req requested transferred es] by blast
  have passed: "cashout_checks env req = (Inr passed, es) \<longrightarrow>
      \<not> exceeds_tolerance (ti_amount passed) (the (rq_amount req))"
    using cashout_pass_within_tolerance [of env req passed es] by blast
  have batch: "truthy (er_payrollId batchReq) \<and> truthy (er_txHash batchReq) \<and>
    getPayrollsByPayrollId (the (er_payrollId batchReq)) (payrolls w) = first # others \<and>
    verifyPayrollTransaction (the (er_txHash batchReq)) (employer_address first) = Inr v \<longrightarrow>
      is_amount_mismatch (snd (fst (executePayroll verifyPayrollTransaction batchReq w)))
        = list_ex (mismatched (expected_employees (first # others))) (pv_transfers v) \<and>
      (list_ex (mismatched (expected_employees (first # others))) (pv_transfers v) \<longrightarrow>
         (\<exists>transfer expectedAmount.
             find (mismatched (expected_employees (first # others))) (pv_transfers v)
               = Some transfer \<and>
             map_of (expected_employees (first # others)) (toLowerCase (tr_to transfer))
               = Some expectedAmount \<and>
             exceeds_tolerance (tr_amount transfer) expectedAmount \<and>
             fst (executePayroll verifyPayrollTransaction batchReq w)
               = (400, PAmountMismatch (tr_to transfer) expectedAmount (tr_amount transfer))))"
    using payroll_amount_check [of batchReq w first others verifyPayrollTransaction v]
    by blast
  from tolerance_examples tolerance_threshold_bounds general refused passed batch
    tolerance_examples_cashout tolerance_examples_payroll
  show ?thesis by (intro conjI)
qed

theorem amount_tolerance_boundary_witness:
  "exceeds_tolerance ''100.02'' ''100.00''
     = (tolerance_threshold \<le> \<bar>(7038281792649953 / 70368744177664 :: rat) - 100\<bar>) \<and>
   \<not> exceeds_tolerance ''100.004'' (the (rq_amount example_cashout_request)) \<and>
   exceeds_tolerance ''100.02'' (the (rq_amount example_cashout_request)) \<and>
   is_amount_mismatch
     (snd (fst (executePayroll pays_second_too_much example_payroll_request example_batch_world))) \<and>
   find (mismatched (expected_employees
           (getPayrollsByPayrollId ''batch-1'' (payrolls example_batch_world))))
     [\<lparr>tr_from = ''0xE1'', tr_to = ''0xA1'', tr_amount = ''100.004''\<rparr>,
      \<lparr>tr_from = ''0xE1'', tr_to = ''0xB2'', tr_amount = ''20.02''\<rparr>]
     = Some \<lparr>tr_from = ''0xE1'', tr_to = ''0xB2'', tr_amount = ''20.02''\<rparr> \<and>
   \<not> is_amount_mismatch
     (snd (fst (executePayroll pays_both example_payroll_request example_batch_world)))"
proof -
  let ?row1 = "\<lparr>pr_id = 1, payroll_id = ''batch-1'', employer_address = ''0xe1'',
          pr_employee_address = ''0xa1'', pr_amount_usdt = ''100.00'', pr_tx_hash = None,
          pr_block_number = None, pr_status = PayrollPending\<rparr>"
  let ?row2 = "\<lparr>pr_id = 2, payroll_id = ''batch-1'', employer_address = ''0xe1'',
           pr_employee_address = ''0xb2'', pr_amount_usdt = ''20'', pr_tx_hash = None,
           pr_block_number = None, pr_status = PayrollPending\<rparr>"
  let ?second = "\<lparr>pv_transfers =
            [\<lparr>tr_from = ''0xE1'', tr_to = ''0xA1'', tr_amount = ''100.004''\<rparr>,
             \<lparr>tr_from = ''0xE1'', tr_to = ''0xB2'', tr_amount = ''20.02''\<rparr>],
          pv_blockNumber = 9\<rparr>"
  let ?both = "\<lparr>pv_transfers =
            [\<lparr>tr_from = ''0xE1'', tr_to = ''0xA1'', tr_amount = ''100.004''\<rparr>,
             \<lparr>tr_from = ''0xE1'', tr_to = ''0xB2'', tr_amount = ''20.0''\<rparr>],
          pv_blockNumber = 9\<rparr>"
  let ?within = "\<lparr>ti_from = toLowerCase example_employee, ti_to = example_custody,
                   ti_amount = ''100.004''\<rparr>"
  have parsed: "parseFloat ''100.02'' = Fin (7038281792649953 / 70368744177664) \<and>
                parseFloat ''100.00'' = Fin 100"
    by code_simp
  have within: "cashout_checks example_cashout_env example_cashout_request
                  = (Inr ?within, [ChainLookup ''0xdeposit''])"
    by code_simp
  have excess: "cashout_checks example_cashout_env_excess example_cashout_request
                  = (Inl (400, CAmountMismatch (parseFloat ''100.00'') (parseFloat ''100.02'')),
                     [ChainLookup ''0xdeposit''])"
    by code_simp
  have verified: "ce_verifyTransfer example_cashout_env_excess
                    (the (rq_txHash example_cashout_request))
                    = Inr \<lparr>ti_from = toLowerCase example_employee, ti_to = example_custody,
                           ti_amount = ''100.02''\<rparr>"
    by (simp add: example_cashout_env_excess_def example_cashout_env_def)
  have id: "truthy (er_payrollId example_payroll_request)"
    and tx: "truthy (er_txHash example_payroll_request)"
    by code_simp+
  have rows: "getPayrollsByPayrollId ''batch-1'' (payrolls example_batch_world) = ?row1 # [?row2]"
    using example_batch_rows by (simp add: example_payroll_request_def)
  have v2: "pays_second_too_much (the (er_txHash example_payroll_request)) (employer_address ?row1)
              = Inr ?second"
    and v3: "pays_both (the (er_txHash example_payroll_request)) (employer_address ?row1)
              = Inr ?both"
    by (simp_all add: pays_second_too_much_def pays_both_def)
  have some: "list_ex (mismatched (expected_employees (?row1 # [?row2]))) (pv_transfers ?second)"
    and none: "\<not> list_ex (mismatched (expected_employees (?row1 # [?row2]))) (pv_transfers ?both)"
    by code_simp+
  have first: "find (mismatched (expected_employees (?row1 # [?row2]))) (pv_transfers ?second)
                 = Some \<lparr>tr_from = ''0xE1'', tr_to = ''0xB2'', tr_amount = ''20.02''\<rparr>"
    by code_simp
  note at_pass = amount_tolerance_boundary
    [where t = "''100.02''" and x = "7038281792649953 / 70368744177664" and e = "''100.00''"
       and y = 100 and env = example_cashout_env and req = example_cashout_request
       and es = "[ChainLookup ''0xdeposit'']" and passed = ?within
       and batchReq = example_payroll_request and w = example_batch_world
       and first = ?row1 and others = "[?row2]"
       and verifyPayrollTransaction = pays_second_too_much and v = ?second]
  note at_excess = amount_tolerance_boundary
    [where env = example_cashout_env_excess and req = example_cashout_request
       and requested = "parseFloat ''100.00''" and transferred = "parseFloat ''100.02''"
       and es = "[ChainLookup ''0xdeposit'']"
       and batchReq = example_payroll_request and w = example_batch_world
       and first = ?row1 and others = "[?row2]"
       and verifyPayrollTransaction = pays_both and v = ?both]
  have a: "exceeds_tolerance ''100.02'' ''100.00''
             = (tolerance_threshold \<le> \<bar>(7038281792649953 / 70368744177664 :: rat) - 100\<bar>)"
    using at_pass parsed by blast
  have b: "\<not> exceeds_tolerance ''100.004'' (the (rq_amount example_cashout_request))"
    using at_pass within by simp
  have c: "exceeds_tolerance ''100.02'' (the (rq_amount example_cashout_request))"
    using at_excess excess verified by auto
  have d: "is_amount_mismatch (snd (fst (executePayroll pays_second_too_much
             example_payroll_request example_batch_world)))"
    using at_pass id tx example_batch_rows v2 some by blast
  have e: "\<not> is_amount_mismatch (snd (fst (executePayroll pays_both
             example_payroll_request example_batch_world)))"
    using at_excess id tx example_batch_rows v3 none by blast
  from a b c d e first rows show ?thesis by simp
qed

section \<open>Properties of \<open>createPaymentIntentHandler\<close>\<close>

lemma processor_calls_log_rate [simp]:
  "processor_calls (log_effects [RateLookup a b] w) = processor_calls w"
  by (simp add: processor_calls_def log_effects_def)

text \<open>
  Claim C8. When the computed token amount exceeds the cap of 5 tokens, the request is
  answered with status 400, no Payment row is added and the payment processor is not
  called. (With well-formed fields the body is the limit error: lemma \<open>cap_response\<close>.)
\<close>

theorem purchase_cap_before_charge:
  assumes "js_gt (onramp_amount_usdt env req) max_purchase_usdt"
  shows "(\<exists>body. fst (createPaymentIntentHandler env req w) = (400, body)) \<and>
         payments (snd (createPaymentIntentHandler env req w)) = payments w \<and>
         processor_calls (snd (createPaymentIntentHandler env req w)) = processor_calls w"
  using assms
  by (simp add: createPaymentIntentHandler_def Let_def log_effects_def processor_calls_def)

lemma cap_response:
  assumes "truthy (pq_walletAddress req)" "pm_isAddress env (the (pq_walletAddress req))"
    and "truthy (pq_amount req)" "\<not> js_le (parseFloat (the (pq_amount req))) (Fin 0)"
    and "supported_currency (pq_currency req)"
    and "js_gt (onramp_amount_usdt env req) max_purchase_usdt"
  shows "fst (createPaymentIntentHandler env req w)
           = (400, PayLimit ''5'' (toFixed6 (pm_toString env) (onramp_amount_usdt env req)))"
  using assms by (simp add: createPaymentIntentHandler_def Let_def)

text \<open>\<open>parseFloat\<close> returns a double, and a double times 1 is that double.\<close>

lemma parseFloat_double: "parseFloat s = Fin v \<Longrightarrow> to_double v = Fin v"
  by (auto simp: parseFloat_def Let_def split: if_splits prod.splits list.splits
        dest: to_double_idem)

lemma js_mul_one: "js_mul (parseFloat s) (Fin 1) = parseFloat s"
  by (cases "parseFloat s") (simp_all add: parseFloat_double)

lemma fallback_rate:
  "pm_rate env ''usdt'' currency = Inl error \<Longrightarrow> onramp_exchange_rate env currency = Fin 1"
  by (simp add: onramp_exchange_rate_def)

lemma handler_new_rows:
  "payments (snd (createPaymentIntentHandler env req w)) = payments w \<or>
   (\<exists>row. payments (snd (createPaymentIntentHandler env req w)) = payments w @ [row] \<and>
          fst (fst (createPaymentIntentHandler env req w)) = 200 \<and>
          exchange_rate row
            = pm_toString env (onramp_exchange_rate env (toLowerCase (the (pq_currency req)))) \<and>
          amount_usdt row = toFixed6 (pm_toString env) (onramp_amount_usdt env req) \<and>
          p_status row = Pending)"
  by (auto simp: createPaymentIntentHandler_def Let_def log_effects_def createPayment_def
        payment_failure_def split: if_splits option.splits sum.splits prod.splits)

text \<open>
  Claim C9. When the exchange-rate look-up throws, the handler uses the rate 1: the token
  amount is the fiat amount, the request proceeds exactly as if the look-up had answered 1
  (the error is not handed on), and a Payment row that the request adds records the text
  of 1 as its exchange rate and the fiat amount, with six decimals, as its token amount.
\<close>

theorem exchange_rate_fallback:
  assumes "pm_rate env ''usdt'' (toLowerCase (the (pq_currency req))) = Inl error"
  shows "onramp_exchange_rate env (toLowerCase (the (pq_currency req))) = Fin 1 \<and>
         onramp_amount_usdt env req = parseFloat (the (pq_amount req)) \<and>
         createPaymentIntentHandler env req w
           = createPaymentIntentHandler (env\<lparr>pm_rate := \<lambda>from to. Inr (Fin 1)\<rparr>) req w \<and>
         (payments (snd (createPaymentIntentHandler env req w)) = payments w \<or>
          (\<exists>row. payments (snd (createPaymentIntentHandler env req w)) = payments w @ [row] \<and>
                 fst (fst (createPaymentIntentHandler env req w)) = 200 \<and>
                 exchange_rate row = pm_toString env (Fin 1) \<and>
                 amount_usdt row = toFixed6 (pm_toString env) (parseFloat (the (pq_amount req))) \<and>
                 p_status row = Pending))"
proof -
  have rate: "onramp_exchange_rate env (toLowerCase (the (pq_currency req))) = Fin 1"
    using assms by (rule fallback_rate)
  have amount: "onramp_amount_usdt env req = parseFloat (the (pq_amount req))"
    by (simp add: onramp_amount_usdt_def rate js_mul_one)
  have rate': "onramp_exchange_rate (env\<lparr>pm_rate := \<lambda>from to. Inr (Fin 1)\<rparr>)
                 (toLowerCase (the (pq_currency req))) = Fin 1"
    by (simp add: onramp_exchange_rate_def)
  have same: "createPaymentIntentHandler env req w
           = createPaymentIntentHandler (env\<lparr>pm_rate := \<lambda>from to. Inr (Fin 1)\<rparr>) req w"
    by (simp add: createPaymentIntentHandler_def onramp_amount_usdt_def rate rate'
          createPaymentIntent_def Let_def
          cong del: if_weak_cong sum.case_cong_weak option.case_cong_weak prod.case_cong_weak)
  from rate amount same handler_new_rows [of env req w] show ?thesis
    by simp
qed

theorem exchange_rate_fallback_witness:
  "createPaymentIntentHandler example_payment_env_no_rate example_payment_request example_world
     = createPaymentIntentHandler
         (example_payment_env_no_rate\<lparr>pm_rate := \<lambda>from to. Inr (Fin 1)\<rparr>)
         example_payment_request example_world \<and>
   map exchange_rate (payments (snd (createPaymentIntentHandler example_payment_env_no_rate
         example_payment_request example_world))) = [''1'', ''1''] \<and>
   map amount_usdt (payments (snd (createPaymentIntentHandler example_payment_env_no_rate
         example_payment_request example_world))) = [''5.000000'', ''4.000000'']"
proof -
  have throws: "pm_rate example_payment_env_no_rate ''usdt''
                  (toLowerCase (the (pq_currency example_payment_request)))
                  = Inl (new_Error ''Failed to get exchange rate for usdt to usd'')"
    by (simp add: example_payment_env_no_rate_def)
  have rows: "map exchange_rate (payments (snd (createPaymentIntentHandler example_payment_env_no_rate
         example_payment_request example_world))) = [''1'', ''1'']"
     "map amount_usdt (payments (snd (createPaymentIntentHandler example_payment_env_no_rate
         example_payment_request example_world))) = [''5.000000'', ''4.000000'']"
    by code_simp+
  from exchange_rate_fallback [OF throws, of example_world] rows show ?thesis
    by blast
qed

theorem purchase_cap_before_charge_witness:
  "fst (createPaymentIntentHandler example_payment_env example_payment_request example_world)
     = (400, PayLimit ''5'' ''40.000000'') \<and>
   payments (snd (createPaymentIntentHandler example_payment_env example_payment_request
      example_world)) = payments example_world \<and>
   processor_calls (snd (createPaymentIntentHandler example_payment_env example_payment_request
      example_world)) = processor_calls example_world"
proof -
  have over: "js_gt (onramp_amount_usdt example_payment_env example_payment_request)
                max_purchase_usdt"
    by code_simp
  have answer: "fst (createPaymentIntentHandler example_payment_env example_payment_request
                  example_world) = (400, PayLimit ''5'' ''40.000000'')"
    by code_simp
  from purchase_cap_before_charge [OF over, of example_world] answer show ?thesis
    by blast
qed


end
